theory Spec2Isabelle
  imports Complex_Main
begin

section \<open>Time: protobuf timestamps, durations and the clock-skew correction\<close>

text \<open>
  \<^verbatim>\<open>google::protobuf::Timestamp\<close> and \<^verbatim>\<open>google::protobuf::Duration\<close> hold an
  \<^verbatim>\<open>int64\<close> count of seconds and an \<^verbatim>\<open>int32\<close> count of nanoseconds. The fields are
  integers here and the 64-bit range is written out where it is used. A corrected
  timestamp is again a seconds+nanoseconds pair and has the same type.
\<close>

record Timestamp =
  seconds :: int
  nanos :: int

record Duration =
  d_seconds :: int
  d_nanos :: int

definition INT64_MIN :: int where
  "INT64_MIN = - (2 ^ 63)"

definition INT64_MAX :: int where
  "INT64_MAX = 2 ^ 63 - 1"

definition saturate64 :: "int \<Rightarrow> int" where
  "saturate64 v = (if v < INT64_MIN then INT64_MIN else if INT64_MAX < v then INT64_MAX else v)"

text \<open>Saturating 64-bit addition and negation: the exact result, clamped into the
  range of \<^verbatim>\<open>int64\<close>.\<close>

definition sat_add64 :: "int \<Rightarrow> int \<Rightarrow> int" where
  "sat_add64 a b = saturate64 (a + b)"

definition sat_neg64 :: "int \<Rightarrow> int" where
  "sat_neg64 a = saturate64 (- a)"

definition NANOS_PER_SECOND :: int where
  "NANOS_PER_SECOND = 1000000000"

text \<open>
  Modelled from the spec: \<^verbatim>\<open>spot_ros2::applyClockSkew\<close> is declared in
  \<^verbatim>\<open>spot_driver_cpp/api/time_sync_api.hpp\<close>, which is not among the sources. Section 4.1:
  a pure, total function that adds the skew to the raw timestamp with saturating
  (wrapping-free) 64-bit signed arithmetic over seconds+nanoseconds pairs and normalises
  nanosecond overflow into seconds. Every addition is a saturating 64-bit addition: the
  nanoseconds are added, the seconds are added, and the whole seconds of the nanosecond
  sum are carried into the seconds.
\<close>

definition applyClockSkew :: "Timestamp \<Rightarrow> Duration \<Rightarrow> Timestamp" where
  "applyClockSkew timestamp clock_skew =
     (let total_nanos = sat_add64 (nanos timestamp) (d_nanos clock_skew);
          total_seconds = sat_add64 (seconds timestamp) (d_seconds clock_skew)
      in \<lparr>seconds = sat_add64 total_seconds (total_nanos div NANOS_PER_SECOND),
          nanos = total_nanos mod NANOS_PER_SECOND\<rparr>)"

definition zero_skew :: Duration where
  "zero_skew = \<lparr>d_seconds = 0, d_nanos = 0\<rparr>"

text \<open>The negated skew, in the same saturating 64-bit arithmetic.\<close>

definition negate_skew :: "Duration \<Rightarrow> Duration" where
  "negate_skew d = \<lparr>d_seconds = sat_neg64 (d_seconds d), d_nanos = sat_neg64 (d_nanos d)\<rparr>"

text \<open>A value of \<^verbatim>\<open>int64\<close>.\<close>

definition exact64 :: "int \<Rightarrow> bool" where
  "exact64 v = (INT64_MIN \<le> v \<and> v \<le> INT64_MAX)"

text \<open>A timestamp as protobuf documents it: seconds within \<^verbatim>\<open>int64\<close>, nanoseconds
  within one second.\<close>

definition normalized :: "Timestamp \<Rightarrow> bool" where
  "normalized t = (INT64_MIN \<le> seconds t \<and> seconds t \<le> INT64_MAX
                   \<and> 0 \<le> nanos t \<and> nanos t < NANOS_PER_SECOND)"

text \<open>A skew whose two fields are values of \<^verbatim>\<open>int64\<close> and whose negation is exact:
  neither field is the least 64-bit value, the only one whose negation saturates.\<close>

definition negatable :: "Duration \<Rightarrow> bool" where
  "negatable d = (INT64_MIN < d_seconds d \<and> d_seconds d \<le> INT64_MAX
                  \<and> INT64_MIN < d_nanos d \<and> d_nanos d \<le> INT64_MAX)"

text \<open>No addition of a correction saturates: the sum of the nanoseconds, the sum of
  the seconds and the sum of the seconds with the carry are values of \<^verbatim>\<open>int64\<close>.\<close>

definition unsaturated :: "Timestamp \<Rightarrow> Duration \<Rightarrow> bool" where
  "unsaturated t d =
     (exact64 (nanos t + d_nanos d)
      \<and> exact64 (seconds t + d_seconds d)
      \<and> exact64 (seconds t + d_seconds d + (nanos t + d_nanos d) div NANOS_PER_SECOND))"

text \<open>\<^verbatim>\<open>builtin_interfaces::msg::Duration\<close> has an \<^verbatim>\<open>int32 sec\<close> and a
  \<^verbatim>\<open>uint32 nanosec\<close>; the builder narrows the protobuf fields.\<close>

definition to_int32 :: "int \<Rightarrow> int" where
  "to_int32 v = (v + 2 ^ 31) mod 2 ^ 32 - 2 ^ 31"

definition to_uint32 :: "int \<Rightarrow> int" where
  "to_uint32 v = v mod 2 ^ 32"

definition build_Duration :: "Duration \<Rightarrow> Duration" where
  "build_Duration d = \<lparr>d_seconds = to_int32 (d_seconds d), d_nanos = to_uint32 (d_nanos d)\<rparr>"

section \<open>The robot's state as the robot API delivers it\<close>

text \<open>
  The messages of \<^verbatim>\<open>bosdyn::api\<close>, with the fields the drivers read. The type \<open>'d\<close> is
  the type of \<^verbatim>\<open>double\<close> values: the code only copies them, and a sub-message that is
  not set reads as its default, whose numbers are \<open>0\<close>. A sub-message the code tests
  with \<^verbatim>\<open>has_...()\<close> is an option; enumerations and integers are \<open>int\<close>.
\<close>

record 'd Vec3 =
  Vec3_x :: 'd
  Vec3_y :: 'd
  Vec3_z :: 'd

record 'd Quaternion =
  Quaternion_x :: 'd
  Quaternion_y :: 'd
  Quaternion_z :: 'd
  Quaternion_w :: 'd

record 'd SE3Pose =
  SE3Pose_position :: "'d Vec3"
  SE3Pose_rotation :: "'d Quaternion"

record 'd SE3Velocity =
  SE3Velocity_linear :: "'d Vec3"
  SE3Velocity_angular :: "'d Vec3"

record 'd BatteryState =
  BatteryState_timestamp :: Timestamp
  BatteryState_identifier :: string
  BatteryState_charge_percentage :: 'd
  BatteryState_estimated_runtime :: Duration
  BatteryState_current :: 'd
  BatteryState_voltage :: 'd
  BatteryState_temperatures :: "'d list"
  BatteryState_status :: int

record WiFiState =
  WiFiState_current_mode :: int
  WiFiState_essid :: string

record CommsState =
  CommsState_wifi_state :: "WiFiState option"

record 'd FootState =
  FootState_foot_position_rt_body :: "'d Vec3"
  FootState_contact :: int

record EStopState =
  EStopState_timestamp :: Timestamp
  EStopState_name :: string
  EStopState_type :: int
  EStopState_state :: int
  EStopState_state_description :: string

record 'd JointState =
  JointState_name :: string
  JointState_position :: 'd
  JointState_velocity :: 'd
  JointState_load :: 'd

record 'd ParentEdge =
  parent_frame_name :: string
  parent_tform_child :: "'d SE3Pose"

text \<open>The frame tree is a protobuf map from child frame names to parent edges; the
  list gives its entries in the order the loop over the map visits them.\<close>

record 'd FrameTreeSnapshot =
  child_to_parent_edge_map :: "(string \<times> 'd ParentEdge) list"

record 'd KinematicState =
  joint_states :: "'d JointState list"
  acquisition_timestamp :: Timestamp
  transforms_snapshot :: "'d FrameTreeSnapshot"
  velocity_of_body_in_odom :: "'d SE3Velocity"

record 'd PowerState =
  PowerState_timestamp :: Timestamp
  PowerState_motor_power_state :: int
  PowerState_shore_power_state :: int
  PowerState_locomotion_charge_percentage :: 'd
  PowerState_locomotion_estimated_runtime :: Duration

record SystemFault =
  SystemFault_name :: string
  SystemFault_onset_timestamp :: Timestamp
  SystemFault_duration :: Duration
  SystemFault_code :: int
  SystemFault_uid :: int
  SystemFault_error_message :: string
  SystemFault_attributes :: "string list"
  SystemFault_severity :: int

record SystemFaultState =
  SystemFaultState_faults :: "SystemFault list"
  SystemFaultState_historical_faults :: "SystemFault list"

record 'd ManipulatorState =
  gripper_open_percentage :: 'd
  is_gripper_holding_item :: bool
  estimated_end_effector_force_in_hand_opt :: "'d Vec3 option"
  stow_state :: int
  velocity_of_hand_in_vision_opt :: "'d SE3Velocity option"
  velocity_of_hand_in_odom_opt :: "'d SE3Velocity option"
  carry_state :: int

record BehaviorFault =
  BehaviorFault_behavior_fault_id :: int
  BehaviorFault_onset_timestamp :: Timestamp
  BehaviorFault_cause :: int
  BehaviorFault_status :: int

record BehaviorFaultState =
  BehaviorFaultState_faults :: "BehaviorFault list"

record 'd RobotState =
  battery_states :: "'d BatteryState list"
  comms_states :: "CommsState list"
  foot_state :: "'d FootState list"
  estop_states :: "EStopState list"
  kinematic_state_opt :: "'d KinematicState option"
  power_state_opt :: "'d PowerState option"
  system_fault_state_opt :: "SystemFaultState option"
  manipulator_state_opt :: "'d ManipulatorState option"
  behavior_fault_state_opt :: "BehaviorFaultState option"

subsection \<open>Accessors: an unset sub-message reads as the default message\<close>

definition default_Timestamp :: Timestamp where
  "default_Timestamp = \<lparr>seconds = 0, nanos = 0\<rparr>"

definition default_Vec3 :: "('d::zero) Vec3" where
  "default_Vec3 = \<lparr>Vec3_x = 0, Vec3_y = 0, Vec3_z = 0\<rparr>"

definition default_Quaternion :: "('d::zero) Quaternion" where
  "default_Quaternion = \<lparr>Quaternion_x = 0, Quaternion_y = 0, Quaternion_z = 0, Quaternion_w = 0\<rparr>"

definition default_SE3Pose :: "('d::zero) SE3Pose" where
  "default_SE3Pose = \<lparr>SE3Pose_position = default_Vec3, SE3Pose_rotation = default_Quaternion\<rparr>"

definition default_SE3Velocity :: "('d::zero) SE3Velocity" where
  "default_SE3Velocity = \<lparr>SE3Velocity_linear = default_Vec3, SE3Velocity_angular = default_Vec3\<rparr>"

definition default_KinematicState :: "('d::zero) KinematicState" where
  "default_KinematicState =
     \<lparr>joint_states = [], acquisition_timestamp = default_Timestamp,
      transforms_snapshot = \<lparr>child_to_parent_edge_map = []\<rparr>,
      velocity_of_body_in_odom = default_SE3Velocity\<rparr>"

definition has_kinematic_state :: "'d RobotState \<Rightarrow> bool" where
  "has_kinematic_state robot_state = (kinematic_state_opt robot_state \<noteq> None)"

definition kinematic_state :: "('d::zero) RobotState \<Rightarrow> 'd KinematicState" where
  "kinematic_state robot_state =
     (case kinematic_state_opt robot_state of Some k \<Rightarrow> k | None \<Rightarrow> default_KinematicState)"

definition estimated_end_effector_force_in_hand :: "('d::zero) ManipulatorState \<Rightarrow> 'd Vec3" where
  "estimated_end_effector_force_in_hand m =
     (case estimated_end_effector_force_in_hand_opt m of Some v \<Rightarrow> v | None \<Rightarrow> default_Vec3)"

definition velocity_of_hand_in_vision :: "('d::zero) ManipulatorState \<Rightarrow> 'd SE3Velocity" where
  "velocity_of_hand_in_vision m =
     (case velocity_of_hand_in_vision_opt m of Some v \<Rightarrow> v | None \<Rightarrow> default_SE3Velocity)"

definition velocity_of_hand_in_odom :: "('d::zero) ManipulatorState \<Rightarrow> 'd SE3Velocity" where
  "velocity_of_hand_in_odom m =
     (case velocity_of_hand_in_odom_opt m of Some v \<Rightarrow> v | None \<Rightarrow> default_SE3Velocity)"

section \<open>The messages the driver publishes\<close>

text \<open>
  The ROS messages of \<^verbatim>\<open>spot_msgs\<close>, \<^verbatim>\<open>bosdyn_msgs\<close>, \<^verbatim>\<open>sensor_msgs\<close>,
  \<^verbatim>\<open>geometry_msgs\<close>, \<^verbatim>\<open>nav_msgs\<close> and \<^verbatim>\<open>tf2_msgs\<close>, with the prefix \<open>msg_\<close>. A
  \<^verbatim>\<open>Vector3\<close>, \<^verbatim>\<open>Point\<close> or \<^verbatim>\<open>Quaternion\<close> of \<^verbatim>\<open>geometry_msgs\<close> has the fields of
  \<open>Vec3\<close> and \<open>Quaternion\<close> and shares their type. A default-constructed message has
  empty strings, zero numbers and zero stamps.
\<close>

record Header =
  stamp :: Timestamp
  frame_id :: string

record 'd msg_BatteryState =
  msg_BatteryState_header :: Header
  msg_BatteryState_identifier :: string
  msg_BatteryState_charge_percentage :: 'd
  msg_BatteryState_estimated_runtime :: Duration
  msg_BatteryState_current :: 'd
  msg_BatteryState_voltage :: 'd
  msg_BatteryState_temperatures :: "'d list"
  msg_BatteryState_status :: int

record 'd msg_BatteryStateArray =
  msg_battery_states :: "'d msg_BatteryState list"

record msg_WiFiState =
  msg_WiFiState_current_mode :: int
  msg_WiFiState_essid :: string

record 'd msg_FootState =
  msg_FootState_foot_position_rt_body :: "'d Vec3"
  msg_FootState_contact :: int

record 'd msg_FootStateArray =
  msg_states :: "'d msg_FootState list"

record msg_EStopState =
  msg_EStopState_header :: Header
  msg_EStopState_name :: string
  msg_EStopState_type :: int
  msg_EStopState_state :: int
  msg_EStopState_state_description :: string

record msg_EStopStateArray =
  msg_estop_states :: "msg_EStopState list"

record 'd msg_JointState =
  msg_JointState_header :: Header
  msg_JointState_name :: "string list"
  msg_JointState_position :: "'d list"
  msg_JointState_velocity :: "'d list"
  msg_JointState_effort :: "'d list"

record 'd msg_Transform =
  translation :: "'d Vec3"
  rotation :: "'d Quaternion"

text \<open>In a \<^verbatim>\<open>TransformStamped\<close> the frame of the header is the parent frame of the
  edge and \<open>child_frame_id\<close> is its child frame.\<close>

record 'd msg_TransformStamped =
  msg_TransformStamped_header :: Header
  msg_TransformStamped_child_frame_id :: string
  msg_TransformStamped_transform :: "'d msg_Transform"

record 'd msg_TFMessage =
  transforms :: "'d msg_TransformStamped list"

record 'd msg_Twist =
  msg_Twist_linear :: "'d Vec3"
  msg_Twist_angular :: "'d Vec3"

record 'd msg_TwistWithCovariance =
  msg_TwistWithCovariance_twist :: "'d msg_Twist"
  msg_TwistWithCovariance_covariance :: "'d list"

record 'd msg_TwistWithCovarianceStamped =
  msg_TwistWithCovarianceStamped_header :: Header
  msg_TwistWithCovarianceStamped_twist :: "'d msg_TwistWithCovariance"

record 'd msg_Pose =
  msg_Pose_position :: "'d Vec3"
  msg_Pose_orientation :: "'d Quaternion"

record 'd msg_PoseWithCovariance =
  msg_PoseWithCovariance_pose :: "'d msg_Pose"
  msg_PoseWithCovariance_covariance :: "'d list"

record 'd msg_Odometry =
  msg_Odometry_header :: Header
  msg_Odometry_child_frame_id :: string
  msg_Odometry_pose :: "'d msg_PoseWithCovariance"
  msg_Odometry_twist :: "'d msg_TwistWithCovariance"

record 'd msg_PowerState =
  msg_PowerState_header :: Header
  msg_PowerState_motor_power_state :: int
  msg_PowerState_shore_power_state :: int
  msg_PowerState_locomotion_charge_percentage :: 'd
  msg_PowerState_locomotion_estimated_runtime :: Duration

record msg_SystemFault =
  msg_SystemFault_header :: Header
  msg_SystemFault_name :: string
  msg_SystemFault_duration :: Duration
  msg_SystemFault_code :: int
  msg_SystemFault_uid :: int
  msg_SystemFault_error_message :: string
  msg_SystemFault_attributes :: "string list"
  msg_SystemFault_severity :: int

record msg_SystemFaultState =
  msg_SystemFaultState_faults :: "msg_SystemFault list"
  msg_SystemFaultState_historical_faults :: "msg_SystemFault list"

record 'd msg_ManipulatorState =
  msg_gripper_open_percentage :: 'd
  msg_is_gripper_holding_item :: bool
  msg_estimated_end_effector_force_in_hand :: "'d Vec3"
  msg_estimated_end_effector_force_in_hand_is_set :: bool
  msg_stow_state :: int
  msg_velocity_of_hand_in_vision :: "'d msg_Twist"
  msg_velocity_of_hand_in_vision_is_set :: bool
  msg_velocity_of_hand_in_odom :: "'d msg_Twist"
  msg_velocity_of_hand_in_odom_is_set :: bool
  msg_carry_state :: int

record 'd msg_Vector3Stamped =
  msg_Vector3Stamped_header :: Header
  msg_Vector3Stamped_vector :: "'d Vec3"

record msg_BehaviorFault =
  msg_BehaviorFault_header :: Header
  msg_BehaviorFault_behavior_fault_id :: int
  msg_BehaviorFault_cause :: int
  msg_BehaviorFault_status :: int

record msg_BehaviorFaultState =
  msg_BehaviorFaultState_faults :: "msg_BehaviorFault list"

text \<open>A covariance matrix is an array of 36 numbers, all zero when the message is
  default-constructed.\<close>

definition default_covariance :: "('d::zero) list" where
  "default_covariance = replicate 36 0"

text \<open>\<^verbatim>\<open>spot_ros2::RobotState\<close>, the aggregated state, in the order of its initialiser.\<close>

record 'd spot_ros2_RobotState =
  rs_battery_states :: "'d msg_BatteryStateArray"
  rs_wifi_state :: msg_WiFiState
  rs_foot_state :: "'d msg_FootStateArray"
  rs_estop_states :: msg_EStopStateArray
  rs_maybe_joint_states :: "'d msg_JointState option"
  rs_maybe_tf :: "'d msg_TFMessage option"
  rs_maybe_odom_twist :: "'d msg_TwistWithCovarianceStamped option"
  rs_maybe_odom :: "'d msg_Odometry option"
  rs_maybe_power_state :: "'d msg_PowerState option"
  rs_maybe_system_fault_state :: "msg_SystemFaultState option"
  rs_maybe_manipulator_state :: "'d msg_ManipulatorState option"
  rs_maybe_end_effector_force :: "'d msg_Vector3Stamped option"
  rs_maybe_behavior_fault_state :: "msg_BehaviorFaultState option"

section \<open>The conversions of \<^verbatim>\<open>default_robot_state_client.cpp\<close>\<close>

subsection \<open>What the code calls and does not define\<close>

text \<open>
  The Boston Dynamics SDK's \<^verbatim>\<open>bosdyn/math\<close> is a library outside the repository; the
  conversions take it as a parameter. \<open>inverse_SE3Pose\<close> is \<^verbatim>\<open>operator~\<close> on poses. A
  frame lookup takes the snapshot and the pose its output parameter points to, and
  gives the \<^verbatim>\<open>bool\<close> it returns and the pose it leaves there.
\<close>

record 'd bosdyn_math =
  inverse_SE3Pose :: "'d SE3Pose \<Rightarrow> 'd SE3Pose"
  GetWorldTformBody :: "'d FrameTreeSnapshot \<Rightarrow> 'd SE3Pose \<Rightarrow> bool \<times> 'd SE3Pose"
  GetOdomTformBody :: "'d FrameTreeSnapshot \<Rightarrow> 'd SE3Pose \<Rightarrow> bool \<times> 'd SE3Pose"

text \<open>
  Modelled from the spec: \<^verbatim>\<open>spot_ros2::conversions::toTransformStamped\<close> is declared in
  \<^verbatim>\<open>spot_driver_cpp/conversions/geometry.hpp\<close>, which is not among the sources. Section
  4.2, rules 3 and 4: called with the stored transform, \<open>prefix + parent_frame_name\<close>,
  \<open>prefix + child_frame_name\<close> and the corrected time, it gives the edge whose parent is
  its second argument, whose child is its third, with the transform's value and the time.
\<close>

definition toTransformStamped ::
    "'d SE3Pose \<Rightarrow> string \<Rightarrow> string \<Rightarrow> Timestamp \<Rightarrow> 'd msg_TransformStamped" where
  "toTransformStamped transform parent_frame child_frame tf_time =
     \<lparr>msg_TransformStamped_header = \<lparr>stamp = tf_time, frame_id = parent_frame\<rparr>,
      msg_TransformStamped_child_frame_id = child_frame,
      msg_TransformStamped_transform =
        \<lparr>translation = \<lparr>Vec3_x = Vec3_x (SE3Pose_position transform),
                         Vec3_y = Vec3_y (SE3Pose_position transform),
                         Vec3_z = Vec3_z (SE3Pose_position transform)\<rparr>,
         rotation = \<lparr>Quaternion_x = Quaternion_x (SE3Pose_rotation transform),
                      Quaternion_y = Quaternion_y (SE3Pose_rotation transform),
                      Quaternion_z = Quaternion_z (SE3Pose_rotation transform),
                      Quaternion_w = Quaternion_w (SE3Pose_rotation transform)\<rparr>\<rparr>\<rparr>"

text \<open>The exceptions of the standard library that the code can raise:
  \<^verbatim>\<open>std::map::at\<close> on a missing key and \<^verbatim>\<open>std::optional::value\<close> on an empty optional.\<close>

datatype exception = out_of_range | bad_optional_access

subsection \<open>The friendly joint names\<close>

definition kFriendlyJointNames :: "(string \<times> string) list" where
  "kFriendlyJointNames =
     [(''fl.hx'', ''front_left_hip_x''), (''fl.hy'', ''front_left_hip_y''), (''fl.kn'', ''front_left_knee''),
      (''fr.hx'', ''front_right_hip_x''), (''fr.hy'', ''front_right_hip_y''), (''fr.kn'', ''front_right_knee''),
      (''hl.hx'', ''rear_left_hip_x''), (''hl.hy'', ''rear_left_hip_y''), (''hl.kn'', ''rear_left_knee''),
      (''hr.hx'', ''rear_right_hip_x''), (''hr.hy'', ''rear_right_hip_y''), (''hr.kn'', ''rear_right_knee''),
      (''arm0.sh0'', ''arm_sh0''), (''arm0.sh1'', ''arm_sh1''), (''arm0.hr0'', ''arm_hr0''),
      (''arm0.el0'', ''arm_el0''), (''arm0.el1'', ''arm_el1''), (''arm0.wr0'', ''arm_wr0''),
      (''arm0.wr1'', ''arm_wr1''), (''arm0.f1x'', ''arm_f1x'')]"

text \<open>\<^verbatim>\<open>kFriendlyJointNames.at(key)\<close>: the value, or \<^verbatim>\<open>std::out_of_range\<close>.\<close>

definition kFriendlyJointNames_at :: "string \<Rightarrow> exception + string" where
  "kFriendlyJointNames_at key =
     (case map_of kFriendlyJointNames key of None \<Rightarrow> Inl out_of_range | Some v \<Rightarrow> Inr v)"

subsection \<open>Batteries, wifi, feet and e-stops\<close>

definition GetBatteryState :: "Duration \<Rightarrow> 'd BatteryState \<Rightarrow> 'd msg_BatteryState" where
  "GetBatteryState clock_skew battery =
     \<lparr>msg_BatteryState_header =
        \<lparr>stamp = applyClockSkew (BatteryState_timestamp battery) clock_skew, frame_id = []\<rparr>,
      msg_BatteryState_identifier = BatteryState_identifier battery,
      msg_BatteryState_charge_percentage = BatteryState_charge_percentage battery,
      msg_BatteryState_estimated_runtime = build_Duration (BatteryState_estimated_runtime battery),
      msg_BatteryState_current = BatteryState_current battery,
      msg_BatteryState_voltage = BatteryState_voltage battery,
      msg_BatteryState_temperatures = BatteryState_temperatures battery,
      msg_BatteryState_status = BatteryState_status battery\<rparr>"

definition GetBatteryStates :: "'d RobotState \<Rightarrow> Duration \<Rightarrow> 'd msg_BatteryStateArray" where
  "GetBatteryStates robot_state clock_skew =
     \<lparr>msg_battery_states = map (GetBatteryState clock_skew) (battery_states robot_state)\<rparr>"

text \<open>Every communication state with a wifi state overwrites the message: the last
  one stays.\<close>

fun GetWifiState_loop :: "CommsState list \<Rightarrow> msg_WiFiState \<Rightarrow> msg_WiFiState" where
  "GetWifiState_loop [] wifi_state = wifi_state"
| "GetWifiState_loop (comm_state # rest) wifi_state =
     (case CommsState_wifi_state comm_state of
        Some w \<Rightarrow>
          GetWifiState_loop rest
            \<lparr>msg_WiFiState_current_mode = WiFiState_current_mode w,
             msg_WiFiState_essid = WiFiState_essid w\<rparr>
      | None \<Rightarrow> GetWifiState_loop rest wifi_state)"

definition GetWifiState :: "'d RobotState \<Rightarrow> msg_WiFiState" where
  "GetWifiState robot_state =
     GetWifiState_loop (comms_states robot_state)
       \<lparr>msg_WiFiState_current_mode = 0, msg_WiFiState_essid = []\<rparr>"

definition GetFootState :: "'d RobotState \<Rightarrow> 'd msg_FootStateArray" where
  "GetFootState robot_state =
     \<lparr>msg_states =
        map (\<lambda>foot.
               \<lparr>msg_FootState_foot_position_rt_body =
                  \<lparr>Vec3_x = Vec3_x (FootState_foot_position_rt_body foot),
                   Vec3_y = Vec3_y (FootState_foot_position_rt_body foot),
                   Vec3_z = Vec3_z (FootState_foot_position_rt_body foot)\<rparr>,
                msg_FootState_contact = FootState_contact foot\<rparr>)
          (foot_state robot_state)\<rparr>"

definition GetEstopState :: "Duration \<Rightarrow> EStopState \<Rightarrow> msg_EStopState" where
  "GetEstopState clock_skew estop =
     \<lparr>msg_EStopState_header =
        \<lparr>stamp = applyClockSkew (EStopState_timestamp estop) clock_skew, frame_id = []\<rparr>,
      msg_EStopState_name = EStopState_name estop,
      msg_EStopState_type = EStopState_type estop,
      msg_EStopState_state = EStopState_state estop,
      msg_EStopState_state_description = EStopState_state_description estop\<rparr>"

definition GetEstopStates :: "'d RobotState \<Rightarrow> Duration \<Rightarrow> msg_EStopStateArray" where
  "GetEstopStates robot_state clock_skew =
     \<lparr>msg_estop_states = map (GetEstopState clock_skew) (estop_states robot_state)\<rparr>"

subsection \<open>Joint states\<close>

text \<open>The loop over the joints appends to the four arrays of the message and stops at
  the first joint whose name the table does not have, with the exception of the lookup.\<close>

fun GetJointStates_loop ::
    "string \<Rightarrow> 'd JointState list \<Rightarrow> 'd msg_JointState \<Rightarrow> exception + 'd msg_JointState" where
  "GetJointStates_loop prefix [] joint_states_msg = Inr joint_states_msg"
| "GetJointStates_loop prefix (joint # rest) joint_states_msg =
     (case kFriendlyJointNames_at (JointState_name joint) of
        Inl e \<Rightarrow> Inl e
      | Inr friendly \<Rightarrow>
          GetJointStates_loop prefix rest
            (joint_states_msg
               \<lparr>msg_JointState_name := msg_JointState_name joint_states_msg @ [prefix @ friendly],
                msg_JointState_position :=
                  msg_JointState_position joint_states_msg @ [JointState_position joint],
                msg_JointState_velocity :=
                  msg_JointState_velocity joint_states_msg @ [JointState_velocity joint],
                msg_JointState_effort :=
                  msg_JointState_effort joint_states_msg @ [JointState_load joint]\<rparr>))"

definition GetJointStates ::
    "('d::zero) RobotState \<Rightarrow> Duration \<Rightarrow> string \<Rightarrow> exception + 'd msg_JointState option" where
  "GetJointStates robot_state clock_skew prefix =
     (if has_kinematic_state robot_state then
        (case GetJointStates_loop prefix (joint_states (kinematic_state robot_state))
                \<lparr>msg_JointState_header =
                   \<lparr>stamp = applyClockSkew (acquisition_timestamp (kinematic_state robot_state))
                              clock_skew,
                    frame_id = []\<rparr>,
                 msg_JointState_name = [], msg_JointState_position = [],
                 msg_JointState_velocity = [], msg_JointState_effort = []\<rparr> of
           Inl e \<Rightarrow> Inl e
         | Inr joint_states_msg \<Rightarrow> Inr (Some joint_states_msg))
      else Inr None)"

subsection \<open>The frame tree\<close>

fun GetTf_loop ::
    "'d bosdyn_math \<Rightarrow> Timestamp \<Rightarrow> Duration \<Rightarrow> string \<Rightarrow> string
       \<Rightarrow> (string \<times> 'd ParentEdge) list \<Rightarrow> 'd msg_TransformStamped list
       \<Rightarrow> 'd msg_TransformStamped list" where
  "GetTf_loop math acquired clock_skew prefix inverse_target_frame_id [] tf_msg = tf_msg"
| "GetTf_loop math acquired clock_skew prefix inverse_target_frame_id
       ((child_frame_id, transform) # rest) tf_msg =
     (let local_time = applyClockSkew acquired clock_skew
      in if inverse_target_frame_id = prefix @ child_frame_id then
           (let inversed_tf = inverse_SE3Pose math (parent_tform_child transform)
            in GetTf_loop math acquired clock_skew prefix inverse_target_frame_id rest
                 (tf_msg @ [toTransformStamped inversed_tf (prefix @ child_frame_id)
                              (prefix @ parent_frame_name transform) local_time]))
         else
           GetTf_loop math acquired clock_skew prefix inverse_target_frame_id rest
             (tf_msg @ [toTransformStamped (parent_tform_child transform)
                          (prefix @ parent_frame_name transform)
                          (prefix @ child_frame_id) local_time]))"

definition GetTf ::
    "'d bosdyn_math \<Rightarrow> ('d::zero) RobotState \<Rightarrow> Duration \<Rightarrow> string \<Rightarrow> string
       \<Rightarrow> 'd msg_TFMessage option" where
  "GetTf math robot_state clock_skew prefix inverse_target_frame_id =
     (if has_kinematic_state robot_state then
        Some \<lparr>transforms =
                GetTf_loop math (acquisition_timestamp (kinematic_state robot_state)) clock_skew
                  prefix inverse_target_frame_id
                  (child_to_parent_edge_map (transforms_snapshot (kinematic_state robot_state)))
                  []\<rparr>
      else None)"

subsection \<open>Odometry\<close>

definition GetOdomTwist ::
    "('d::zero) RobotState \<Rightarrow> Duration \<Rightarrow> 'd msg_TwistWithCovarianceStamped option" where
  "GetOdomTwist robot_state clock_skew =
     (if has_kinematic_state robot_state then
        Some
          \<lparr>msg_TwistWithCovarianceStamped_header =
             \<lparr>stamp = applyClockSkew (acquisition_timestamp (kinematic_state robot_state))
                        clock_skew,
              frame_id = []\<rparr>,
           msg_TwistWithCovarianceStamped_twist =
             \<lparr>msg_TwistWithCovariance_twist =
                \<lparr>msg_Twist_linear =
                   \<lparr>Vec3_x = Vec3_x (SE3Velocity_linear
                                       (velocity_of_body_in_odom (kinematic_state robot_state))),
                    Vec3_y = Vec3_y (SE3Velocity_linear
                                       (velocity_of_body_in_odom (kinematic_state robot_state))),
                    Vec3_z = Vec3_z (SE3Velocity_linear
                                       (velocity_of_body_in_odom (kinematic_state robot_state)))\<rparr>,
                 msg_Twist_angular =
                   \<lparr>Vec3_x = Vec3_x (SE3Velocity_linear
                                       (velocity_of_body_in_odom (kinematic_state robot_state))),
                    Vec3_y = Vec3_y (SE3Velocity_angular
                                       (velocity_of_body_in_odom (kinematic_state robot_state))),
                    Vec3_z = Vec3_z (SE3Velocity_angular
                                       (velocity_of_body_in_odom (kinematic_state robot_state)))\<rparr>\<rparr>,
              msg_TwistWithCovariance_covariance = default_covariance\<rparr>\<rparr>
      else None)"

text \<open>The pose starts as the default \<^verbatim>\<open>SE3Pose\<close>; the lookup writes through the
  pointer, and the \<^verbatim>\<open>bool\<close> it returns is dropped.\<close>

definition GetOdom ::
    "'d bosdyn_math \<Rightarrow> ('d::zero) RobotState \<Rightarrow> Duration \<Rightarrow> string \<Rightarrow> bool
       \<Rightarrow> exception + 'd msg_Odometry option" where
  "GetOdom math robot_state clock_skew prefix is_using_vision =
     (if has_kinematic_state robot_state then
        (let odom_stamp =
               applyClockSkew (acquisition_timestamp (kinematic_state robot_state)) clock_skew;
             odom_frame_id = (if is_using_vision then prefix @ ''vision'' else prefix @ ''odom'');
             tf_body_pose =
               (if is_using_vision then
                  snd (GetWorldTformBody math (transforms_snapshot (kinematic_state robot_state))
                         default_SE3Pose)
                else
                  snd (GetOdomTformBody math (transforms_snapshot (kinematic_state robot_state))
                         default_SE3Pose));
             pose_odom_msg =
               \<lparr>msg_PoseWithCovariance_pose =
                  \<lparr>msg_Pose_position =
                     \<lparr>Vec3_x = Vec3_x (SE3Pose_position tf_body_pose),
                      Vec3_y = Vec3_y (SE3Pose_position tf_body_pose),
                      Vec3_z = Vec3_z (SE3Pose_position tf_body_pose)\<rparr>,
                   msg_Pose_orientation =
                     \<lparr>Quaternion_x = Quaternion_x (SE3Pose_rotation tf_body_pose),
                      Quaternion_y = Quaternion_y (SE3Pose_rotation tf_body_pose),
                      Quaternion_z = Quaternion_z (SE3Pose_rotation tf_body_pose),
                      Quaternion_w = Quaternion_w (SE3Pose_rotation tf_body_pose)\<rparr>\<rparr>,
                msg_PoseWithCovariance_covariance = default_covariance\<rparr>
         in case GetOdomTwist robot_state clock_skew of
              None \<Rightarrow> Inl bad_optional_access
            | Some odom_twist_msg \<Rightarrow>
                Inr (Some
                  \<lparr>msg_Odometry_header = \<lparr>stamp = odom_stamp, frame_id = odom_frame_id\<rparr>,
                   msg_Odometry_child_frame_id = prefix @ ''body'',
                   msg_Odometry_pose = pose_odom_msg,
                   msg_Odometry_twist = msg_TwistWithCovarianceStamped_twist odom_twist_msg\<rparr>))
      else Inr None)"

subsection \<open>Power, faults and the manipulator\<close>

definition GetPowerState :: "'d RobotState \<Rightarrow> Duration \<Rightarrow> 'd msg_PowerState option" where
  "GetPowerState robot_state clock_skew =
     (case power_state_opt robot_state of
        Some power_state \<Rightarrow>
          Some
            \<lparr>msg_PowerState_header =
               \<lparr>stamp = applyClockSkew (PowerState_timestamp power_state) clock_skew, frame_id = []\<rparr>,
             msg_PowerState_motor_power_state = PowerState_motor_power_state power_state,
             msg_PowerState_shore_power_state = PowerState_shore_power_state power_state,
             msg_PowerState_locomotion_charge_percentage =
               PowerState_locomotion_charge_percentage power_state,
             msg_PowerState_locomotion_estimated_runtime =
               build_Duration (PowerState_locomotion_estimated_runtime power_state)\<rparr>
      | None \<Rightarrow> None)"

definition create_fault_message :: "Duration \<Rightarrow> SystemFault \<Rightarrow> msg_SystemFault" where
  "create_fault_message clock_skew fault =
     \<lparr>msg_SystemFault_header =
        \<lparr>stamp = applyClockSkew (SystemFault_onset_timestamp fault) clock_skew, frame_id = []\<rparr>,
      msg_SystemFault_name = SystemFault_name fault,
      msg_SystemFault_duration = build_Duration (SystemFault_duration fault),
      msg_SystemFault_code = SystemFault_code fault,
      msg_SystemFault_uid = SystemFault_uid fault,
      msg_SystemFault_error_message = SystemFault_error_message fault,
      msg_SystemFault_attributes = SystemFault_attributes fault,
      msg_SystemFault_severity = SystemFault_severity fault\<rparr>"

definition GetSystemFaultState :: "'d RobotState \<Rightarrow> Duration \<Rightarrow> msg_SystemFaultState option" where
  "GetSystemFaultState robot_state clock_skew =
     (case system_fault_state_opt robot_state of
        Some fault_state \<Rightarrow>
          Some
            \<lparr>msg_SystemFaultState_faults =
               map (create_fault_message clock_skew) (SystemFaultState_faults fault_state),
             msg_SystemFaultState_historical_faults =
               map (create_fault_message clock_skew)
                 (SystemFaultState_historical_faults fault_state)\<rparr>
      | None \<Rightarrow> None)"

definition twist_of_SE3Velocity :: "'d SE3Velocity \<Rightarrow> 'd msg_Twist" where
  "twist_of_SE3Velocity v =
     \<lparr>msg_Twist_linear =
        \<lparr>Vec3_x = Vec3_x (SE3Velocity_linear v), Vec3_y = Vec3_y (SE3Velocity_linear v),
         Vec3_z = Vec3_z (SE3Velocity_linear v)\<rparr>,
      msg_Twist_angular =
        \<lparr>Vec3_x = Vec3_x (SE3Velocity_angular v), Vec3_y = Vec3_y (SE3Velocity_angular v),
         Vec3_z = Vec3_z (SE3Velocity_angular v)\<rparr>\<rparr>"

definition GetManipulatorState :: "('d::zero) RobotState \<Rightarrow> 'd msg_ManipulatorState option" where
  "GetManipulatorState robot_state =
     (case manipulator_state_opt robot_state of
        Some manipulator \<Rightarrow>
          Some
            \<lparr>msg_gripper_open_percentage = gripper_open_percentage manipulator,
             msg_is_gripper_holding_item = is_gripper_holding_item manipulator,
             msg_estimated_end_effector_force_in_hand =
               \<lparr>Vec3_x = Vec3_x (estimated_end_effector_force_in_hand manipulator),
                Vec3_y = Vec3_y (estimated_end_effector_force_in_hand manipulator),
                Vec3_z = Vec3_z (estimated_end_effector_force_in_hand manipulator)\<rparr>,
             msg_estimated_end_effector_force_in_hand_is_set =
               (estimated_end_effector_force_in_hand_opt manipulator \<noteq> None),
             msg_stow_state = stow_state manipulator,
             msg_velocity_of_hand_in_vision =
               twist_of_SE3Velocity (velocity_of_hand_in_vision manipulator),
             msg_velocity_of_hand_in_vision_is_set =
               (velocity_of_hand_in_vision_opt manipulator \<noteq> None),
             msg_velocity_of_hand_in_odom =
               twist_of_SE3Velocity (velocity_of_hand_in_odom manipulator),
             msg_velocity_of_hand_in_odom_is_set =
               (velocity_of_hand_in_odom_opt manipulator \<noteq> None),
             msg_carry_state = carry_state manipulator\<rparr>
      | None \<Rightarrow> None)"

text \<open>The stamp of the force is the acquisition time of the kinematic state, read also
  when the kinematic state is not set.\<close>

definition GetEndEffectorForce ::
    "('d::zero) RobotState \<Rightarrow> Duration \<Rightarrow> string \<Rightarrow> 'd msg_Vector3Stamped option" where
  "GetEndEffectorForce robot_state clock_skew prefix =
     (case manipulator_state_opt robot_state of
        Some manipulator \<Rightarrow>
          Some
            \<lparr>msg_Vector3Stamped_header =
               \<lparr>stamp = applyClockSkew (acquisition_timestamp (kinematic_state robot_state))
                          clock_skew,
                frame_id = prefix @ ''hand''\<rparr>,
             msg_Vector3Stamped_vector =
               \<lparr>Vec3_x = Vec3_x (estimated_end_effector_force_in_hand manipulator),
                Vec3_y = Vec3_y (estimated_end_effector_force_in_hand manipulator),
                Vec3_z = Vec3_z (estimated_end_effector_force_in_hand manipulator)\<rparr>\<rparr>
      | None \<Rightarrow> None)"

definition GetBehaviorFault :: "Duration \<Rightarrow> BehaviorFault \<Rightarrow> msg_BehaviorFault" where
  "GetBehaviorFault clock_skew fault =
     \<lparr>msg_BehaviorFault_header =
        \<lparr>stamp = applyClockSkew (BehaviorFault_onset_timestamp fault) clock_skew, frame_id = []\<rparr>,
      msg_BehaviorFault_behavior_fault_id = BehaviorFault_behavior_fault_id fault,
      msg_BehaviorFault_cause = BehaviorFault_cause fault,
      msg_BehaviorFault_status = BehaviorFault_status fault\<rparr>"

definition GetBehaviorFaultState ::
    "'d RobotState \<Rightarrow> Duration \<Rightarrow> msg_BehaviorFaultState option" where
  "GetBehaviorFaultState robot_state clock_skew =
     (case behavior_fault_state_opt robot_state of
        Some fault_state \<Rightarrow>
          Some \<lparr>msg_BehaviorFaultState_faults =
                  map (GetBehaviorFault clock_skew) (BehaviorFaultState_faults fault_state)\<rparr>
      | None \<Rightarrow> None)"

section \<open>The state clients\<close>

text \<open>
  \<^verbatim>\<open>tl::expected<T, std::string>\<close> is a value or an error message. What a client's
  method does is one of: it throws, it returns an error message, it returns a value.
\<close>

datatype 'a expected = Value 'a | Unexpected string

record Status =
  Status_ok :: bool
  DebugString :: string

record 'd RobotStateResponse =
  robot_state_opt :: "'d RobotState option"

record 'd RobotStateResultType =
  status :: Status
  response :: "'d RobotStateResponse"

definition has_robot_state :: "'d RobotStateResponse \<Rightarrow> bool" where
  "has_robot_state r = (robot_state_opt r \<noteq> None)"

definition default_RobotState :: "'d RobotState" where
  "default_RobotState =
     \<lparr>battery_states = [], comms_states = [], foot_state = [], estop_states = [],
      kinematic_state_opt = None, power_state_opt = None, system_fault_state_opt = None,
      manipulator_state_opt = None, behavior_fault_state_opt = None\<rparr>"

definition robot_state :: "'d RobotStateResponse \<Rightarrow> 'd RobotState" where
  "robot_state r = (case robot_state_opt r of Some s \<Rightarrow> s | None \<Rightarrow> default_RobotState)"

text \<open>
  The two collaborators are what they answer when asked: the SDK's client is the result
  its request completes with, the time-sync API is the clock skew it reports or the
  error message it gives. Each request a method makes is recorded, in order.
\<close>

datatype call = GetRobotStateAsync | getClockSkew

record 'd DefaultRobotStateClient =
  m_client :: "'d RobotStateResultType"
  m_time_sync_api :: "Duration expected"
  m_frame_prefix :: string

definition new_DefaultRobotStateClient ::
    "'d RobotStateResultType \<Rightarrow> Duration expected \<Rightarrow> string \<Rightarrow> 'd DefaultRobotStateClient" where
  "new_DefaultRobotStateClient client time_sync_api robot_name =
     \<lparr>m_client = client, m_time_sync_api = time_sync_api,
      m_frame_prefix = (if robot_name = [] then [] else robot_name @ ''/'')\<rparr>"

definition getRobotState ::
    "'d bosdyn_math \<Rightarrow> ('d::zero) DefaultRobotStateClient
       \<Rightarrow> (exception + 'd spot_ros2_RobotState expected) \<times> call list" where
  "getRobotState math this =
     (let get_robot_state_result = m_client this
      in if \<not> Status_ok (status get_robot_state_result)
            \<or> \<not> has_robot_state (response get_robot_state_result) then
           (Inr (Unexpected (''Failed to get robot state: ''
                               @ DebugString (status get_robot_state_result))),
            [GetRobotStateAsync])
         else
           (case m_time_sync_api this of
              Unexpected err \<Rightarrow>
                (Inr (Unexpected (''Failed to get latest clock skew: '' @ err)),
                 [GetRobotStateAsync, getClockSkew])
            | Value clock_skew \<Rightarrow>
                (let state = robot_state (response get_robot_state_result)
                 in case GetJointStates state clock_skew ''Opal/'' of
                      Inl e \<Rightarrow> (Inl e, [GetRobotStateAsync, getClockSkew])
                    | Inr maybe_joint_states \<Rightarrow>
                        (case GetOdom math state clock_skew ''Opal/'' True of
                           Inl e \<Rightarrow> (Inl e, [GetRobotStateAsync, getClockSkew])
                         | Inr maybe_odom \<Rightarrow>
                             (Inr (Value
                                \<lparr>rs_battery_states = GetBatteryStates state clock_skew,
                                 rs_wifi_state = GetWifiState state,
                                 rs_foot_state = GetFootState state,
                                 rs_estop_states = GetEstopStates state clock_skew,
                                 rs_maybe_joint_states = maybe_joint_states,
                                 rs_maybe_tf = GetTf math state clock_skew ''Opal/'' ''body'',
                                 rs_maybe_odom_twist = GetOdomTwist state clock_skew,
                                 rs_maybe_odom = maybe_odom,
                                 rs_maybe_power_state = GetPowerState state clock_skew,
                                 rs_maybe_system_fault_state =
                                   GetSystemFaultState state clock_skew,
                                 rs_maybe_manipulator_state = GetManipulatorState state,
                                 rs_maybe_end_effector_force =
                                   GetEndEffectorForce state clock_skew ''Opal/'',
                                 rs_maybe_behavior_fault_state =
                                   GetBehaviorFaultState state clock_skew\<rparr>),
                              [GetRobotStateAsync, getClockSkew])))))"

text \<open>\<^verbatim>\<open>DefaultStateClient\<close> of \<^verbatim>\<open>spot_driver\<close> hands the robot's state on as it is.\<close>

record 'd DefaultStateClient =
  m_state_client :: "'d RobotStateResultType"

definition DefaultStateClient_getRobotState ::
    "'d DefaultStateClient \<Rightarrow> 'd RobotState expected \<times> call list" where
  "DefaultStateClient_getRobotState this =
     (let get_robot_state_result = m_state_client this
      in if \<not> Status_ok (status get_robot_state_result)
            \<or> \<not> has_robot_state (response get_robot_state_result) then
           (Unexpected (''Failed to get robot state: ''
                          @ DebugString (status get_robot_state_result)),
            [GetRobotStateAsync])
         else (Value (robot_state (response get_robot_state_result)), [GetRobotStateAsync]))"

section \<open>Sample inputs\<close>

text \<open>
  An instance of the SDK's math over the reals. The inverse of a rigid transform with
  unit rotation \<open>q\<close> and translation \<open>p\<close> has the rotation \<open>q\<^sup>*\<close> and the translation
  \<open>q\<^sup>* (- p)\<close>. The frame lookups are those of a snapshot whose frames are not
  connected: they return \<^verbatim>\<open>false\<close> and leave the output pose as it was.
\<close>

definition quaternion_conjugate :: "real Quaternion \<Rightarrow> real Quaternion" where
  "quaternion_conjugate q =
     \<lparr>Quaternion_x = - Quaternion_x q, Quaternion_y = - Quaternion_y q,
      Quaternion_z = - Quaternion_z q, Quaternion_w = Quaternion_w q\<rparr>"

definition quaternion_rotate :: "real Quaternion \<Rightarrow> real Vec3 \<Rightarrow> real Vec3" where
  "quaternion_rotate q v =
     (let tx = 2 * (Quaternion_y q * Vec3_z v - Quaternion_z q * Vec3_y v);
          ty = 2 * (Quaternion_z q * Vec3_x v - Quaternion_x q * Vec3_z v);
          tz = 2 * (Quaternion_x q * Vec3_y v - Quaternion_y q * Vec3_x v)
      in \<lparr>Vec3_x = Vec3_x v + Quaternion_w q * tx + (Quaternion_y q * tz - Quaternion_z q * ty),
          Vec3_y = Vec3_y v + Quaternion_w q * ty + (Quaternion_z q * tx - Quaternion_x q * tz),
          Vec3_z = Vec3_z v + Quaternion_w q * tz + (Quaternion_x q * ty - Quaternion_y q * tx)\<rparr>)"

definition rigid_inverse :: "real SE3Pose \<Rightarrow> real SE3Pose" where
  "rigid_inverse a =
     (let r = quaternion_conjugate (SE3Pose_rotation a)
      in \<lparr>SE3Pose_position =
            quaternion_rotate r
              \<lparr>Vec3_x = - Vec3_x (SE3Pose_position a), Vec3_y = - Vec3_y (SE3Pose_position a),
               Vec3_z = - Vec3_z (SE3Pose_position a)\<rparr>,
          SE3Pose_rotation = r\<rparr>)"

definition sample_math :: "real bosdyn_math" where
  "sample_math =
     \<lparr>inverse_SE3Pose = rigid_inverse,
      GetWorldTformBody = (\<lambda>snapshot out. (False, out)),
      GetOdomTformBody = (\<lambda>snapshot out. (False, out))\<rparr>"

definition sample_skew :: Duration where
  "sample_skew = \<lparr>d_seconds = 5, d_nanos = 0\<rparr>"

text \<open>The body one metre, two metres and three metres from the odometry frame, not
  rotated.\<close>

definition sample_pose :: "real SE3Pose" where
  "sample_pose =
     \<lparr>SE3Pose_position = \<lparr>Vec3_x = 1, Vec3_y = 2, Vec3_z = 3\<rparr>,
      SE3Pose_rotation =
        \<lparr>Quaternion_x = 0, Quaternion_y = 0, Quaternion_z = 0, Quaternion_w = 1\<rparr>\<rparr>"

definition sample_joint :: "string \<Rightarrow> real JointState" where
  "sample_joint raw_name =
     \<lparr>JointState_name = raw_name, JointState_position = 1 / 2, JointState_velocity = 0,
      JointState_load = 3\<rparr>"

text \<open>A kinematic state acquired at 100 s: one joint, the single edge from \<open>odom\<close> to
  \<open>body\<close>, and a body velocity with six different components.\<close>

definition sample_kinematic_state :: "real KinematicState" where
  "sample_kinematic_state =
     \<lparr>joint_states = [sample_joint ''fl.hx''],
      acquisition_timestamp = \<lparr>seconds = 100, nanos = 0\<rparr>,
      transforms_snapshot =
        \<lparr>child_to_parent_edge_map =
           [(''body'', \<lparr>parent_frame_name = ''odom'', parent_tform_child = sample_pose\<rparr>)]\<rparr>,
      velocity_of_body_in_odom =
        \<lparr>SE3Velocity_linear = \<lparr>Vec3_x = 1, Vec3_y = 2, Vec3_z = 3\<rparr>,
         SE3Velocity_angular = \<lparr>Vec3_x = 4, Vec3_y = 5, Vec3_z = 6\<rparr>\<rparr>\<rparr>"

definition sample_state :: "real RobotState" where
  "sample_state = default_RobotState\<lparr>kinematic_state_opt := Some sample_kinematic_state\<rparr>"

text \<open>The same state with a second joint whose name the table does not have.\<close>

definition sample_state_unknown_joint :: "real RobotState" where
  "sample_state_unknown_joint =
     default_RobotState
       \<lparr>kinematic_state_opt :=
          Some (sample_kinematic_state
                  \<lparr>joint_states := [sample_joint ''fl.hx'', sample_joint ''tail.wag'']\<rparr>)\<rparr>"

text \<open>The same state with an empty frame tree: no frame is connected to any other.\<close>

definition sample_state_no_frames :: "real RobotState" where
  "sample_state_no_frames =
     default_RobotState
       \<lparr>kinematic_state_opt :=
          Some (sample_kinematic_state
                  \<lparr>transforms_snapshot := \<lparr>child_to_parent_edge_map = []\<rparr>\<rparr>)\<rparr>"

text \<open>The same state with one battery whose own timestamp is 7 s.\<close>

definition sample_battery :: "real BatteryState" where
  "sample_battery =
     \<lparr>BatteryState_timestamp = \<lparr>seconds = 7, nanos = 0\<rparr>, BatteryState_identifier = ''a'',
      BatteryState_charge_percentage = 80,
      BatteryState_estimated_runtime = \<lparr>d_seconds = 3600, d_nanos = 0\<rparr>,
      BatteryState_current = 1, BatteryState_voltage = 50, BatteryState_temperatures = [],
      BatteryState_status = 3\<rparr>"

definition sample_state_battery :: "real RobotState" where
  "sample_state_battery = sample_state\<lparr>battery_states := [sample_battery]\<rparr>"

text \<open>Clients whose request succeeds with the given state and whose clock skew is 5 s.\<close>

definition sample_result :: "real RobotState \<Rightarrow> real RobotStateResultType" where
  "sample_result state =
     \<lparr>status = \<lparr>Status_ok = True, DebugString = ''OK''\<rparr>,
      response = \<lparr>robot_state_opt = Some state\<rparr>\<rparr>"

definition sample_client :: "real RobotState \<Rightarrow> real DefaultRobotStateClient" where
  "sample_client state =
     new_DefaultRobotStateClient (sample_result state) (Value sample_skew) ''Spot''"

section \<open>Notions the statements use\<close>

text \<open>The edge one entry of the frame tree gives.\<close>

definition GetTf_edge ::
    "'d bosdyn_math \<Rightarrow> Timestamp \<Rightarrow> string \<Rightarrow> string \<Rightarrow> string \<times> 'd ParentEdge
       \<Rightarrow> 'd msg_TransformStamped" where
  "GetTf_edge math local_time prefix inverse_target_frame_id entry =
     (if inverse_target_frame_id = prefix @ fst entry then
        toTransformStamped (inverse_SE3Pose math (parent_tform_child (snd entry)))
          (prefix @ fst entry) (prefix @ parent_frame_name (snd entry)) local_time
      else
        toTransformStamped (parent_tform_child (snd entry))
          (prefix @ parent_frame_name (snd entry)) (prefix @ fst entry) local_time)"

text \<open>A joint whose raw name is a key of the table.\<close>

definition known_joint :: "'d JointState \<Rightarrow> bool" where
  "known_joint joint = (map_of kFriendlyJointNames (JointState_name joint) \<noteq> None)"

text \<open>The condition under which both clients give up on the response.\<close>

definition fetch_failed :: "'d RobotStateResultType \<Rightarrow> bool" where
  "fetch_failed r = (\<not> Status_ok (status r) \<or> \<not> has_robot_state (response r))"

text \<open>The aggregated state a call returned, if it returned one.\<close>

fun returned :: "exception + 'a expected \<Rightarrow> 'a option" where
  "returned (Inr (Value v)) = Some v"
| "returned (Inr (Unexpected err)) = None"
| "returned (Inl e) = None"

text \<open>Each optional sub-result of an aggregated state is absent exactly when the
  sub-message of the robot's state that it comes from is absent.\<close>

definition present_as_in :: "'d RobotState \<Rightarrow> 'd spot_ros2_RobotState \<Rightarrow> bool" where
  "present_as_in state out =
     ((rs_maybe_joint_states out = None) = (kinematic_state_opt state = None)
      \<and> (rs_maybe_tf out = None) = (kinematic_state_opt state = None)
      \<and> (rs_maybe_odom_twist out = None) = (kinematic_state_opt state = None)
      \<and> (rs_maybe_odom out = None) = (kinematic_state_opt state = None)
      \<and> (rs_maybe_power_state out = None) = (power_state_opt state = None)
      \<and> (rs_maybe_system_fault_state out = None) = (system_fault_state_opt state = None)
      \<and> (rs_maybe_manipulator_state out = None) = (manipulator_state_opt state = None)
      \<and> (rs_maybe_end_effector_force out = None) = (manipulator_state_opt state = None)
      \<and> (rs_maybe_behavior_fault_state out = None) = (behavior_fault_state_opt state = None))"

subsection \<open>The timestamps of an aggregated state\<close>

definition stamps_of_option :: "('a \<Rightarrow> Timestamp list) \<Rightarrow> 'a option \<Rightarrow> Timestamp list" where
  "stamps_of_option f m = (case m of None \<Rightarrow> [] | Some v \<Rightarrow> f v)"

text \<open>The stamps of the joint state, of every transform edge, of the twist, of the
  odometry and of the end-effector force: the code takes each of them from the
  acquisition timestamp of the kinematic state.\<close>

definition kinematic_stamps :: "'d spot_ros2_RobotState \<Rightarrow> Timestamp list" where
  "kinematic_stamps out =
     stamps_of_option (\<lambda>m. [stamp (msg_JointState_header m)]) (rs_maybe_joint_states out)
     @ stamps_of_option (\<lambda>m. map (\<lambda>e. stamp (msg_TransformStamped_header e)) (transforms m))
         (rs_maybe_tf out)
     @ stamps_of_option (\<lambda>m. [stamp (msg_TwistWithCovarianceStamped_header m)])
         (rs_maybe_odom_twist out)
     @ stamps_of_option (\<lambda>m. [stamp (msg_Odometry_header m)]) (rs_maybe_odom out)
     @ stamps_of_option (\<lambda>m. [stamp (msg_Vector3Stamped_header m)])
         (rs_maybe_end_effector_force out)"

text \<open>The stamps of the batteries, the e-stops, the power state, the system faults and
  the behaviour faults, and the timestamps of the robot's records they come from, in the
  same order.\<close>

definition record_stamps :: "'d spot_ros2_RobotState \<Rightarrow> Timestamp list" where
  "record_stamps out =
     map (\<lambda>m. stamp (msg_BatteryState_header m)) (msg_battery_states (rs_battery_states out))
     @ map (\<lambda>m. stamp (msg_EStopState_header m)) (msg_estop_states (rs_estop_states out))
     @ stamps_of_option (\<lambda>m. [stamp (msg_PowerState_header m)]) (rs_maybe_power_state out)
     @ stamps_of_option
         (\<lambda>m. map (\<lambda>f. stamp (msg_SystemFault_header f)) (msg_SystemFaultState_faults m)
              @ map (\<lambda>f. stamp (msg_SystemFault_header f))
                  (msg_SystemFaultState_historical_faults m))
         (rs_maybe_system_fault_state out)
     @ stamps_of_option
         (\<lambda>m. map (\<lambda>f. stamp (msg_BehaviorFault_header f)) (msg_BehaviorFaultState_faults m))
         (rs_maybe_behavior_fault_state out)"

definition record_timestamps :: "'d RobotState \<Rightarrow> Timestamp list" where
  "record_timestamps state =
     map BatteryState_timestamp (battery_states state)
     @ map EStopState_timestamp (estop_states state)
     @ stamps_of_option (\<lambda>p. [PowerState_timestamp p]) (power_state_opt state)
     @ stamps_of_option
         (\<lambda>s. map SystemFault_onset_timestamp (SystemFaultState_faults s)
              @ map SystemFault_onset_timestamp (SystemFaultState_historical_faults s))
         (system_fault_state_opt state)
     @ stamps_of_option (\<lambda>s. map BehaviorFault_onset_timestamp (BehaviorFaultState_faults s))
         (behavior_fault_state_opt state)"

section \<open>The timestamp correction\<close>

lemma saturate64_exact: "exact64 v \<Longrightarrow> saturate64 v = v"
  by (simp add: exact64_def saturate64_def)

lemma applyClockSkew_unsaturated:
  assumes "unsaturated raw skew"
  shows "applyClockSkew raw skew =
           \<lparr>seconds = seconds raw + d_seconds skew
                        + (nanos raw + d_nanos skew) div NANOS_PER_SECOND,
            nanos = (nanos raw + d_nanos skew) mod NANOS_PER_SECOND\<rparr>"
  using assms
  by (simp add: applyClockSkew_def unsaturated_def Let_def sat_add64_def saturate64_exact)

lemma negate_skew_negatable:
  assumes "negatable skew"
  shows "negate_skew skew = \<lparr>d_seconds = - d_seconds skew, d_nanos = - d_nanos skew\<rparr>"
proof -
  have "exact64 (- d_seconds skew)" and "exact64 (- d_nanos skew)"
    using assms by (simp_all add: negatable_def exact64_def INT64_MIN_def INT64_MAX_def)
  then show ?thesis
    by (simp add: negate_skew_def sat_neg64_def saturate64_exact)
qed

lemma applyClockSkew_undo:
  assumes "normalized raw" and "negatable skew" and "unsaturated raw skew"
    and "unsaturated (applyClockSkew raw skew) (negate_skew skew)"
  shows "applyClockSkew (applyClockSkew raw skew) (negate_skew skew) = raw"
proof -
  define B where "B = NANOS_PER_SECOND"
  define q where "q = (nanos raw + d_nanos skew) div B"
  define r where "r = (nanos raw + d_nanos skew) mod B"
  have n: "0 \<le> nanos raw" "nanos raw < B"
    using assms(1) by (simp_all add: normalized_def B_def)
  have B: "B \<noteq> 0"
    by (simp add: B_def NANOS_PER_SECOND_def)
  have forth: "applyClockSkew raw skew = \<lparr>seconds = seconds raw + d_seconds skew + q, nanos = r\<rparr>"
    using applyClockSkew_unsaturated [OF assms(3)] by (simp add: q_def r_def B_def)
  have neg: "negate_skew skew = \<lparr>d_seconds = - d_seconds skew, d_nanos = - d_nanos skew\<rparr>"
    using assms(2) by (rule negate_skew_negatable)
  have shifted: "r - d_nanos skew = nanos raw + (- q) * B"
    unfolding r_def q_def by (simp add: algebra_simps minus_div_mult_eq_mod [symmetric])
  have "(nanos raw + (- q) * B) div B = - q + nanos raw div B"
    using B by (rule div_mult_self1)
  then have d: "(r - d_nanos skew) div B = - q"
    unfolding shifted using n by simp
  have "(nanos raw + (- q) * B) mod B = nanos raw mod B"
    by (rule mod_mult_self1)
  then have m: "(r - d_nanos skew) mod B = nanos raw"
    unfolding shifted using n by simp
  have "applyClockSkew (applyClockSkew raw skew) (negate_skew skew) =
          \<lparr>seconds = seconds raw + d_seconds skew + q + (- d_seconds skew)
                       + (r + (- d_nanos skew)) div B,
           nanos = (r + (- d_nanos skew)) mod B\<rparr>"
    using applyClockSkew_unsaturated [OF assms(4)] unfolding forth neg
    by (simp add: B_def)
  then show ?thesis
    using d m by simp
qed

text \<open>
  Claim C8, as the correction of section 4.1 allows it. For every timestamp with its
  seconds within 64 bits and its nanoseconds within one second, correcting by the zero
  skew gives the timestamp back. For every skew whose fields are 64-bit values with an
  exact negation, when no addition saturates in the correction by the skew nor in the
  correction of its result by the negated skew, the second correction gives the
  timestamp back.
\<close>

theorem applyClockSkew_zero_and_round_trip:
  assumes "normalized raw"
  shows "applyClockSkew raw zero_skew = raw
         \<and> (negatable skew \<and> unsaturated raw skew
              \<and> unsaturated (applyClockSkew raw skew) (negate_skew skew)
              \<longrightarrow> applyClockSkew (applyClockSkew raw skew) (negate_skew skew) = raw)"
proof -
  have "unsaturated raw zero_skew"
    using assms
    by (simp add: unsaturated_def exact64_def normalized_def zero_skew_def
        NANOS_PER_SECOND_def INT64_MIN_def INT64_MAX_def)
  then have "applyClockSkew raw zero_skew = raw"
    using assms
    by (simp add: applyClockSkew_unsaturated normalized_def zero_skew_def NANOS_PER_SECOND_def)
  then show ?thesis
    using assms by (simp add: applyClockSkew_undo)
qed

text \<open>The theorem at 100.6 s and a skew of 5.7 s, where the nanoseconds carry a second
  forth and borrow it back.\<close>

theorem applyClockSkew_zero_and_round_trip_witness:
  "normalized \<lparr>seconds = 100, nanos = 600000000\<rparr>
   \<and> negatable \<lparr>d_seconds = 5, d_nanos = 700000000\<rparr>
   \<and> unsaturated \<lparr>seconds = 100, nanos = 600000000\<rparr> \<lparr>d_seconds = 5, d_nanos = 700000000\<rparr>
   \<and> applyClockSkew \<lparr>seconds = 100, nanos = 600000000\<rparr> \<lparr>d_seconds = 5, d_nanos = 700000000\<rparr>
       = \<lparr>seconds = 106, nanos = 300000000\<rparr>
   \<and> negate_skew \<lparr>d_seconds = 5, d_nanos = 700000000\<rparr>
       = \<lparr>d_seconds = - 5, d_nanos = - 700000000\<rparr>
   \<and> unsaturated \<lparr>seconds = 106, nanos = 300000000\<rparr> \<lparr>d_seconds = - 5, d_nanos = - 700000000\<rparr>
   \<and> applyClockSkew \<lparr>seconds = 100, nanos = 600000000\<rparr> zero_skew
       = \<lparr>seconds = 100, nanos = 600000000\<rparr>
   \<and> applyClockSkew
        (applyClockSkew \<lparr>seconds = 100, nanos = 600000000\<rparr>
           \<lparr>d_seconds = 5, d_nanos = 700000000\<rparr>)
        (negate_skew \<lparr>d_seconds = 5, d_nanos = 700000000\<rparr>)
       = \<lparr>seconds = 100, nanos = 600000000\<rparr>"
proof -
  have n: "normalized \<lparr>seconds = 100, nanos = 600000000\<rparr>"
    by (simp add: normalized_def INT64_MIN_def INT64_MAX_def NANOS_PER_SECOND_def)
  have g: "negatable \<lparr>d_seconds = 5, d_nanos = 700000000\<rparr>"
    by (simp add: negatable_def INT64_MIN_def INT64_MAX_def)
  have u: "unsaturated \<lparr>seconds = 100, nanos = 600000000\<rparr>
             \<lparr>d_seconds = 5, d_nanos = 700000000\<rparr>"
    by (simp add: unsaturated_def exact64_def INT64_MIN_def INT64_MAX_def NANOS_PER_SECOND_def)
  have a: "applyClockSkew \<lparr>seconds = 100, nanos = 600000000\<rparr>
             \<lparr>d_seconds = 5, d_nanos = 700000000\<rparr> = \<lparr>seconds = 106, nanos = 300000000\<rparr>"
    using applyClockSkew_unsaturated [OF u] by (simp add: NANOS_PER_SECOND_def)
  have m: "negate_skew \<lparr>d_seconds = 5, d_nanos = 700000000\<rparr>
             = \<lparr>d_seconds = - 5, d_nanos = - 700000000\<rparr>"
    using negate_skew_negatable [OF g] by simp
  have v: "unsaturated \<lparr>seconds = 106, nanos = 300000000\<rparr>
             \<lparr>d_seconds = - 5, d_nanos = - 700000000\<rparr>"
    by (simp add: unsaturated_def exact64_def INT64_MIN_def INT64_MAX_def NANOS_PER_SECOND_def)
  have v': "unsaturated
              (applyClockSkew \<lparr>seconds = 100, nanos = 600000000\<rparr>
                 \<lparr>d_seconds = 5, d_nanos = 700000000\<rparr>)
              (negate_skew \<lparr>d_seconds = 5, d_nanos = 700000000\<rparr>)"
    unfolding a m by (rule v)
  from applyClockSkew_zero_and_round_trip [OF n, of "\<lparr>d_seconds = 5, d_nanos = 700000000\<rparr>"]
  have "applyClockSkew \<lparr>seconds = 100, nanos = 600000000\<rparr> zero_skew
          = \<lparr>seconds = 100, nanos = 600000000\<rparr>"
    and "applyClockSkew
        (applyClockSkew \<lparr>seconds = 100, nanos = 600000000\<rparr>
           \<lparr>d_seconds = 5, d_nanos = 700000000\<rparr>)
        (negate_skew \<lparr>d_seconds = 5, d_nanos = 700000000\<rparr>)
       = \<lparr>seconds = 100, nanos = 600000000\<rparr>"
    using g u v' by blast+
  with n g u a m v show ?thesis
    by (intro conjI)
qed

text \<open>
  Claim C8 as stated fails where the addition saturates: the largest 64-bit second,
  corrected by one second and then by minus one second, ends one second earlier.
\<close>

theorem applyClockSkew_round_trip_counterexample:
  "normalized \<lparr>seconds = 9223372036854775807, nanos = 0\<rparr>
   \<and> negatable \<lparr>d_seconds = 1, d_nanos = 0\<rparr>
   \<and> applyClockSkew
        (applyClockSkew \<lparr>seconds = 9223372036854775807, nanos = 0\<rparr>
           \<lparr>d_seconds = 1, d_nanos = 0\<rparr>)
        (negate_skew \<lparr>d_seconds = 1, d_nanos = 0\<rparr>)
       = \<lparr>seconds = 9223372036854775806, nanos = 0\<rparr>
   \<and> \<lparr>seconds = 9223372036854775806, nanos = 0\<rparr>
       \<noteq> \<lparr>seconds = 9223372036854775807, nanos = (0::int)\<rparr>"
  by (simp add: applyClockSkew_def negate_skew_def normalized_def negatable_def
      sat_add64_def sat_neg64_def saturate64_def NANOS_PER_SECOND_def INT64_MIN_def
      INT64_MAX_def)

section \<open>Evaluation of the samples\<close>

lemmas default_defs =
  default_Timestamp_def default_Vec3_def default_Quaternion_def default_SE3Pose_def
  default_SE3Velocity_def default_KinematicState_def default_RobotState_def

lemmas sample_defs =
  sample_math_def sample_skew_def sample_pose_def sample_joint_def sample_kinematic_state_def
  sample_state_def sample_state_unknown_joint_def sample_state_no_frames_def sample_battery_def
  sample_state_battery_def sample_result_def sample_client_def new_DefaultRobotStateClient_def
  rigid_inverse_def quaternion_conjugate_def quaternion_rotate_def

lemma applyClockSkew_100_5:
  "applyClockSkew \<lparr>seconds = 100, nanos = 0\<rparr> \<lparr>d_seconds = 5, d_nanos = 0\<rparr>
     = \<lparr>seconds = 105, nanos = 0\<rparr>"
  by (simp add: applyClockSkew_def sat_add64_def saturate64_def INT64_MIN_def INT64_MAX_def
      NANOS_PER_SECOND_def)

lemma applyClockSkew_7_5:
  "applyClockSkew \<lparr>seconds = 7, nanos = 0\<rparr> \<lparr>d_seconds = 5, d_nanos = 0\<rparr>
     = \<lparr>seconds = 12, nanos = 0\<rparr>"
  by (simp add: applyClockSkew_def sat_add64_def saturate64_def INT64_MIN_def INT64_MAX_def
      NANOS_PER_SECOND_def)

lemma kinematic_state_Some:
  "kinematic_state_opt state = Some ks \<Longrightarrow> kinematic_state state = ks"
  by (simp add: kinematic_state_def)

section \<open>Joint states\<close>

lemma kFriendlyJointNames_at_known:
  "known_joint joint \<Longrightarrow>
     \<exists>friendly. map_of kFriendlyJointNames (JointState_name joint) = Some friendly
        \<and> kFriendlyJointNames_at (JointState_name joint) = Inr friendly"
  by (auto simp: known_joint_def kFriendlyJointNames_at_def)

lemma kFriendlyJointNames_at_unknown:
  "\<not> known_joint joint \<Longrightarrow> kFriendlyJointNames_at (JointState_name joint) = Inl out_of_range"
  by (simp add: known_joint_def kFriendlyJointNames_at_def)

text \<open>When every joint is known the loop ends with a message: it keeps the header and
  appends one prefixed friendly name for each joint, in order.\<close>

lemma GetJointStates_loop_known:
  "list_all known_joint joints \<Longrightarrow>
     \<exists>msg names. GetJointStates_loop prefix joints acc = Inr msg
       \<and> msg_JointState_header msg = msg_JointState_header acc
       \<and> msg_JointState_name msg = msg_JointState_name acc @ names
       \<and> list_all2 (\<lambda>joint name. \<exists>friendly.
              map_of kFriendlyJointNames (JointState_name joint) = Some friendly
              \<and> name = prefix @ friendly) joints names"
proof (induction joints arbitrary: acc)
  case Nil
  then show ?case by simp
next
  case (Cons joint rest)
  then obtain friendly where
    f: "map_of kFriendlyJointNames (JointState_name joint) = Some friendly"
       "kFriendlyJointNames_at (JointState_name joint) = Inr friendly"
    using kFriendlyJointNames_at_known by fastforce
  define acc' where
    "acc' = acc\<lparr>msg_JointState_name := msg_JointState_name acc @ [prefix @ friendly],
                msg_JointState_position :=
                  msg_JointState_position acc @ [JointState_position joint],
                msg_JointState_velocity :=
                  msg_JointState_velocity acc @ [JointState_velocity joint],
                msg_JointState_effort := msg_JointState_effort acc @ [JointState_load joint]\<rparr>"
  from Cons.prems have "list_all known_joint rest"
    by simp
  from Cons.IH [OF this, of acc'] obtain msg names where
    m: "GetJointStates_loop prefix rest acc' = Inr msg"
       "msg_JointState_header msg = msg_JointState_header acc'"
       "msg_JointState_name msg = msg_JointState_name acc' @ names"
       "list_all2 (\<lambda>joint name. \<exists>friendly.
              map_of kFriendlyJointNames (JointState_name joint) = Some friendly
              \<and> name = prefix @ friendly) rest names"
    by blast
  have step: "GetJointStates_loop prefix (joint # rest) acc = GetJointStates_loop prefix rest acc'"
    using f(2) by (simp add: acc'_def)
  show ?case
  proof (intro exI conjI)
    show "GetJointStates_loop prefix (joint # rest) acc = Inr msg"
      using step m(1) by simp
    show "msg_JointState_header msg = msg_JointState_header acc"
      using m(2) by (simp add: acc'_def)
    show "msg_JointState_name msg = msg_JointState_name acc @ ((prefix @ friendly) # names)"
      using m(3) by (simp add: acc'_def)
    show "list_all2 (\<lambda>joint name. \<exists>friendly.
              map_of kFriendlyJointNames (JointState_name joint) = Some friendly
              \<and> name = prefix @ friendly) (joint # rest) ((prefix @ friendly) # names)"
      using m(4) f(1) by simp
  qed
qed

lemma GetJointStates_loop_unknown:
  "\<not> list_all known_joint joints \<Longrightarrow> GetJointStates_loop prefix joints acc = Inl out_of_range"
proof (induction joints arbitrary: acc)
  case Nil
  then show ?case by simp
next
  case (Cons joint rest)
  show ?case
  proof (cases "known_joint joint")
    case True
    then obtain friendly where "kFriendlyJointNames_at (JointState_name joint) = Inr friendly"
      using kFriendlyJointNames_at_known by blast
    moreover have "\<not> list_all known_joint rest"
      using Cons.prems True by simp
    ultimately show ?thesis
      using Cons.IH by simp
  next
    case False
    then show ?thesis
      by (simp add: kFriendlyJointNames_at_unknown)
  qed
qed

lemma GetJointStates_known:
  assumes "kinematic_state_opt state = Some ks"
    and "list_all known_joint (joint_states ks)"
  shows "\<exists>msg. GetJointStates state skew prefix = Inr (Some msg)
           \<and> stamp (msg_JointState_header msg) = applyClockSkew (acquisition_timestamp ks) skew
           \<and> list_all2 (\<lambda>joint name. \<exists>friendly.
                  map_of kFriendlyJointNames (JointState_name joint) = Some friendly
                  \<and> name = prefix @ friendly)
                (joint_states ks) (msg_JointState_name msg)"
proof -
  define start where
    "start = \<lparr>msg_JointState_header =
                \<lparr>stamp = applyClockSkew (acquisition_timestamp ks) skew, frame_id = []\<rparr>,
              msg_JointState_name = [], msg_JointState_position = ([]::'a list),
              msg_JointState_velocity = ([]::'a list), msg_JointState_effort = ([]::'a list)\<rparr>"
  from GetJointStates_loop_known [OF assms(2), of prefix start]
  obtain msg names where
    m: "GetJointStates_loop prefix (joint_states ks) start = Inr msg"
       "msg_JointState_header msg = msg_JointState_header start"
       "msg_JointState_name msg = msg_JointState_name start @ names"
       "list_all2 (\<lambda>joint name. \<exists>friendly.
              map_of kFriendlyJointNames (JointState_name joint) = Some friendly
              \<and> name = prefix @ friendly) (joint_states ks) names"
    by blast
  have "GetJointStates state skew prefix = Inr (Some msg)"
    using assms(1) m(1)
    by (simp add: GetJointStates_def has_kinematic_state_def kinematic_state_Some start_def)
  moreover have "msg_JointState_name msg = names"
    using m(3) by (simp add: start_def)
  moreover have "stamp (msg_JointState_header msg) = applyClockSkew (acquisition_timestamp ks) skew"
    using m(2) by (simp add: start_def)
  ultimately show ?thesis
    using m(4) by auto
qed

lemma GetJointStates_unknown:
  assumes "kinematic_state_opt state = Some ks"
    and "\<not> list_all known_joint (joint_states ks)"
  shows "GetJointStates state skew prefix = Inl out_of_range"
  using assms
  by (simp add: GetJointStates_def has_kinematic_state_def kinematic_state_Some
      GetJointStates_loop_unknown)

lemma GetJointStates_None:
  "kinematic_state_opt state = None \<Longrightarrow> GetJointStates state skew prefix = Inr None"
  by (simp add: GetJointStates_def has_kinematic_state_def)

text \<open>
  Claim C7. With the kinematic state present: when the raw name of every joint is a key
  of the friendly-name table, the joint state is there and its names are, joint by joint
  and in order, the prefix followed by the friendly name of the table; when some joint's
  raw name is not a key of the table, the derivation throws \<^verbatim>\<open>std::out_of_range\<close> and
  gives no message.
\<close>

theorem GetJointStates_friendly_names_or_throws:
  assumes "kinematic_state_opt state = Some ks"
  shows "(list_all known_joint (joint_states ks) \<longrightarrow>
            (\<exists>msg. GetJointStates state skew prefix = Inr (Some msg)
               \<and> list_all2 (\<lambda>joint name. \<exists>friendly.
                      map_of kFriendlyJointNames (JointState_name joint) = Some friendly
                      \<and> name = prefix @ friendly)
                    (joint_states ks) (msg_JointState_name msg)))
         \<and> (\<not> list_all known_joint (joint_states ks) \<longrightarrow>
               GetJointStates state skew prefix = Inl out_of_range)"
  using GetJointStates_known [OF assms] GetJointStates_unknown [OF assms] by blast

text \<open>The theorem on the joint \<open>fl.hx\<close> with the prefix \<open>Opal/\<close>, and on a state with a
  joint the table does not have.\<close>

theorem GetJointStates_friendly_names_or_throws_witness:
  "kinematic_state_opt sample_state = Some sample_kinematic_state
   \<and> list_all known_joint (joint_states sample_kinematic_state)
   \<and> (\<exists>msg. GetJointStates sample_state sample_skew ''Opal/'' = Inr (Some msg)
          \<and> msg_JointState_name msg = [''Opal/front_left_hip_x''])
   \<and> \<not> list_all known_joint
          (joint_states (sample_kinematic_state
             \<lparr>joint_states := [sample_joint ''fl.hx'', sample_joint ''tail.wag'']\<rparr>))
   \<and> GetJointStates sample_state_unknown_joint sample_skew ''Opal/'' = Inl out_of_range"
proof -
  have k: "kinematic_state_opt sample_state = Some sample_kinematic_state"
    by (simp add: sample_state_def default_RobotState_def)
  have a: "list_all known_joint (joint_states sample_kinematic_state)"
    by (simp add: sample_kinematic_state_def sample_joint_def known_joint_def
        kFriendlyJointNames_def)
  have k': "kinematic_state_opt sample_state_unknown_joint =
              Some (sample_kinematic_state
                      \<lparr>joint_states := [sample_joint ''fl.hx'', sample_joint ''tail.wag'']\<rparr>)"
    by (simp add: sample_state_unknown_joint_def default_RobotState_def)
  have b: "\<not> list_all known_joint
             (joint_states (sample_kinematic_state
                \<lparr>joint_states := [sample_joint ''fl.hx'', sample_joint ''tail.wag'']\<rparr>))"
    by (simp add: sample_joint_def known_joint_def kFriendlyJointNames_def)
  from GetJointStates_friendly_names_or_throws [OF k, of sample_skew "''Opal/''"] a
  obtain msg where
    m: "GetJointStates sample_state sample_skew ''Opal/'' = Inr (Some msg)"
       "list_all2 (\<lambda>joint name. \<exists>friendly.
            map_of kFriendlyJointNames (JointState_name joint) = Some friendly
            \<and> name = ''Opal/'' @ friendly)
          (joint_states sample_kinematic_state) (msg_JointState_name msg)"
    by blast
  from m(2) have "msg_JointState_name msg = [''Opal/front_left_hip_x'']"
    by (auto simp: sample_kinematic_state_def sample_joint_def kFriendlyJointNames_def
        list_all2_Cons1)
  with m(1) k a b GetJointStates_friendly_names_or_throws [OF k', of sample_skew "''Opal/''"]
  show ?thesis
    by blast
qed

section \<open>The frame tree\<close>

lemma GetTf_loop_map:
  "GetTf_loop math acquired skew prefix target edges tf_msg =
     tf_msg @ map (GetTf_edge math (applyClockSkew acquired skew) prefix target) edges"
  by (induction edges arbitrary: tf_msg) (auto simp: GetTf_edge_def Let_def)

lemma GetTf_Some:
  assumes "kinematic_state_opt state = Some ks"
  shows "GetTf math state skew prefix target =
           Some \<lparr>transforms =
                   map (GetTf_edge math (applyClockSkew (acquisition_timestamp ks) skew)
                          prefix target)
                     (child_to_parent_edge_map (transforms_snapshot ks))\<rparr>"
  using assms
  by (simp add: GetTf_def has_kinematic_state_def kinematic_state_Some GetTf_loop_map)

lemma GetTf_None:
  "kinematic_state_opt state = None \<Longrightarrow> GetTf math state skew prefix target = None"
  by (simp add: GetTf_def has_kinematic_state_def)

text \<open>
  Claim C1, as the code has it. For the entry at any position of the frame tree whose
  prefixed child name is the invert target, the edge at the same position of the output
  carries the inverse of the stored \<open>parent_tform_child\<close> and has the roles swapped: its
  parent frame (the frame of its header) is the prefixed child name and its child frame
  is the prefix followed by the stored parent frame name. The output has one edge for
  each entry.
\<close>

theorem GetTf_inverted_edge:
  assumes "kinematic_state_opt state = Some ks"
    and "i < length (child_to_parent_edge_map (transforms_snapshot ks))"
    and "child_to_parent_edge_map (transforms_snapshot ks) ! i = (child, edge)"
    and "prefix @ child = target"
  shows "\<exists>tf. GetTf math state skew prefix target = Some tf
           \<and> length (transforms tf) = length (child_to_parent_edge_map (transforms_snapshot ks))
           \<and> transforms tf ! i =
               \<lparr>msg_TransformStamped_header =
                  \<lparr>stamp = applyClockSkew (acquisition_timestamp ks) skew,
                   frame_id = prefix @ child\<rparr>,
                msg_TransformStamped_child_frame_id = prefix @ parent_frame_name edge,
                msg_TransformStamped_transform =
                  \<lparr>translation =
                     SE3Pose_position (inverse_SE3Pose math (parent_tform_child edge)),
                   rotation =
                     SE3Pose_rotation (inverse_SE3Pose math (parent_tform_child edge))\<rparr>\<rparr>"
  using assms by (simp add: GetTf_Some GetTf_edge_def toTransformStamped_def)

text \<open>The theorem on the single edge from \<open>odom\<close> to \<open>body\<close>, with the prefix \<open>Opal/\<close>
  and the target \<open>Opal/body\<close>.\<close>

theorem GetTf_inverted_edge_witness:
  "kinematic_state_opt sample_state = Some sample_kinematic_state
   \<and> 0 < length (child_to_parent_edge_map (transforms_snapshot sample_kinematic_state))
   \<and> child_to_parent_edge_map (transforms_snapshot sample_kinematic_state) ! 0 =
        (''body'', \<lparr>parent_frame_name = ''odom'', parent_tform_child = sample_pose\<rparr>)
   \<and> (\<exists>tf. GetTf sample_math sample_state sample_skew ''Opal/'' ''Opal/body'' = Some tf
          \<and> length (transforms tf) = 1
          \<and> transforms tf ! 0 =
               \<lparr>msg_TransformStamped_header =
                  \<lparr>stamp = \<lparr>seconds = 105, nanos = 0\<rparr>, frame_id = ''Opal/body''\<rparr>,
                msg_TransformStamped_child_frame_id = ''Opal/odom'',
                msg_TransformStamped_transform =
                  \<lparr>translation = \<lparr>Vec3_x = - 1, Vec3_y = - 2, Vec3_z = - 3\<rparr>,
                   rotation = \<lparr>Quaternion_x = 0, Quaternion_y = 0, Quaternion_z = 0,
                                Quaternion_w = 1\<rparr>\<rparr>\<rparr>)"
proof -
  have k: "kinematic_state_opt sample_state = Some sample_kinematic_state"
    by (simp add: sample_state_def default_RobotState_def)
  have l: "0 < length (child_to_parent_edge_map (transforms_snapshot sample_kinematic_state))"
    by (simp add: sample_kinematic_state_def)
  have e: "child_to_parent_edge_map (transforms_snapshot sample_kinematic_state) ! 0 =
             (''body'', \<lparr>parent_frame_name = ''odom'', parent_tform_child = sample_pose\<rparr>)"
    by (simp add: sample_kinematic_state_def)
  have t: "''Opal/'' @ ''body'' = ''Opal/body''"
    by simp
  have a: "acquisition_timestamp sample_kinematic_state = \<lparr>seconds = 100, nanos = 0\<rparr>"
    by (simp add: sample_kinematic_state_def)
  have n: "length (child_to_parent_edge_map (transforms_snapshot sample_kinematic_state)) = 1"
    by (simp add: sample_kinematic_state_def)
  have v: "inverse_SE3Pose sample_math sample_pose =
             \<lparr>SE3Pose_position = \<lparr>Vec3_x = - 1, Vec3_y = - 2, Vec3_z = - 3\<rparr>,
              SE3Pose_rotation = \<lparr>Quaternion_x = 0, Quaternion_y = 0, Quaternion_z = 0,
                                   Quaternion_w = 1\<rparr>\<rparr>"
    by (simp add: sample_math_def sample_pose_def rigid_inverse_def quaternion_conjugate_def
        quaternion_rotate_def)
  from GetTf_inverted_edge [OF k l e t, of sample_math sample_skew]
  show ?thesis
    using k l e by (simp add: a n v sample_skew_def applyClockSkew_100_5)
qed

text \<open>
  Claim C1 as stated fails on its own example: for the single edge with child \<open>body\<close>,
  parent \<open>odom\<close> and the invert target \<open>body\<close> the output is one edge with the inverted
  transform, whose parent frame is \<open>body\<close> and whose child frame is \<open>odom\<close>.
\<close>

theorem GetTf_inverted_edge_roles_counterexample:
  "GetTf sample_math sample_state sample_skew [] ''body'' =
     Some \<lparr>transforms =
             [\<lparr>msg_TransformStamped_header =
                 \<lparr>stamp = \<lparr>seconds = 105, nanos = 0\<rparr>, frame_id = ''body''\<rparr>,
               msg_TransformStamped_child_frame_id = ''odom'',
               msg_TransformStamped_transform =
                 \<lparr>translation = \<lparr>Vec3_x = - 1, Vec3_y = - 2, Vec3_z = - 3\<rparr>,
                  rotation = \<lparr>Quaternion_x = 0, Quaternion_y = 0, Quaternion_z = 0,
                               Quaternion_w = 1\<rparr>\<rparr>\<rparr>]\<rparr>"
  by (simp add: GetTf_def GetTf_edge_def has_kinematic_state_def kinematic_state_def
      toTransformStamped_def sample_defs default_defs applyClockSkew_100_5)

section \<open>Odometry\<close>

text \<open>
  Claim C3 is not what the code does: the sample body velocity has the linear part
  \<open>(1, 2, 3)\<close> and the angular part \<open>(4, 5, 6)\<close>, and the twist derived from it has the
  angular part \<open>(1, 5, 6)\<close>. The angular \<open>x\<close> of the output is the linear \<open>x\<close> of the
  snapshot.
\<close>

theorem GetOdomTwist_angular_x_is_linear_x:
  "velocity_of_body_in_odom sample_kinematic_state =
     \<lparr>SE3Velocity_linear = \<lparr>Vec3_x = 1, Vec3_y = 2, Vec3_z = 3\<rparr>,
      SE3Velocity_angular = \<lparr>Vec3_x = 4, Vec3_y = 5, Vec3_z = 6\<rparr>\<rparr>
   \<and> GetOdomTwist sample_state sample_skew =
       Some \<lparr>msg_TwistWithCovarianceStamped_header =
               \<lparr>stamp = \<lparr>seconds = 105, nanos = 0\<rparr>, frame_id = []\<rparr>,
             msg_TwistWithCovarianceStamped_twist =
               \<lparr>msg_TwistWithCovariance_twist =
                  \<lparr>msg_Twist_linear = \<lparr>Vec3_x = 1, Vec3_y = 2, Vec3_z = 3\<rparr>,
                   msg_Twist_angular = \<lparr>Vec3_x = 1, Vec3_y = 5, Vec3_z = 6\<rparr>\<rparr>,
                msg_TwistWithCovariance_covariance = default_covariance\<rparr>\<rparr>"
  by (simp add: GetOdomTwist_def has_kinematic_state_def kinematic_state_def sample_defs
      default_defs applyClockSkew_100_5)

lemma GetOdomTwist_Some:
  "kinematic_state_opt state = Some ks \<Longrightarrow>
     \<exists>t. GetOdomTwist state skew = Some t
       \<and> stamp (msg_TwistWithCovarianceStamped_header t) =
           applyClockSkew (acquisition_timestamp ks) skew"
  by (simp add: GetOdomTwist_def has_kinematic_state_def kinematic_state_Some)

lemma GetOdomTwist_None:
  "kinematic_state_opt state = None \<Longrightarrow> GetOdomTwist state skew = None"
  by (simp add: GetOdomTwist_def has_kinematic_state_def)

lemma GetOdom_no_exception: "GetOdom math state skew prefix is_using_vision \<noteq> Inl e"
  by (simp add: GetOdom_def GetOdomTwist_def Let_def)

lemma GetOdom_None:
  "kinematic_state_opt state = None \<Longrightarrow>
     GetOdom math state skew prefix is_using_vision = Inr None"
  by (simp add: GetOdom_def has_kinematic_state_def)

lemma GetOdom_Some:
  assumes "kinematic_state_opt state = Some ks"
  shows "\<exists>odom. GetOdom math state skew prefix is_using_vision = Inr (Some odom)
           \<and> stamp (msg_Odometry_header odom) = applyClockSkew (acquisition_timestamp ks) skew"
proof -
  obtain t where "GetOdomTwist state skew = Some t"
    using GetOdomTwist_Some [OF assms] by blast
  then show ?thesis
    using assms by (simp add: GetOdom_def has_kinematic_state_def kinematic_state_Some Let_def)
qed

lemma GetOdom_vision_frame:
  assumes "kinematic_state_opt state = Some ks"
  shows "\<exists>odom. GetOdom math state skew prefix True = Inr (Some odom)
           \<and> frame_id (msg_Odometry_header odom) = prefix @ ''vision''"
proof -
  obtain t where "GetOdomTwist state skew = Some t"
    using GetOdomTwist_Some [OF assms] by blast
  then show ?thesis
    using assms by (simp add: GetOdom_def has_kinematic_state_def Let_def)
qed

text \<open>
  Claim C2, as the code has it. With the kinematic state present the odometry derivation
  never fails: whatever the frame lookup returns, there is an odometry message, and its
  pose is the pose the lookup leaves in the output parameter that started as the
  default pose. No error stands for a missing path.
\<close>

theorem GetOdom_drops_lookup_result:
  assumes "kinematic_state_opt state = Some ks"
  shows "\<exists>odom. GetOdom math state skew prefix is_using_vision = Inr (Some odom)
           \<and> msg_PoseWithCovariance_pose (msg_Odometry_pose odom) =
               (let tf_body_pose =
                      snd ((if is_using_vision then GetWorldTformBody math
                            else GetOdomTformBody math)
                             (transforms_snapshot ks) default_SE3Pose)
                in \<lparr>msg_Pose_position = SE3Pose_position tf_body_pose,
                    msg_Pose_orientation = SE3Pose_rotation tf_body_pose\<rparr>)"
proof -
  obtain t where "GetOdomTwist state skew = Some t"
    using GetOdomTwist_Some [OF assms] by blast
  then show ?thesis
    using assms by (simp add: GetOdom_def has_kinematic_state_def kinematic_state_Some Let_def)
qed

text \<open>The theorem on the sample state, whose lookups fail and leave the pose alone:
  the pose of the odometry is the default pose.\<close>

theorem GetOdom_drops_lookup_result_witness:
  "kinematic_state_opt sample_state = Some sample_kinematic_state
   \<and> (\<exists>odom. GetOdom sample_math sample_state sample_skew ''Opal/'' False = Inr (Some odom)
          \<and> msg_PoseWithCovariance_pose (msg_Odometry_pose odom) =
              \<lparr>msg_Pose_position = default_Vec3, msg_Pose_orientation = default_Quaternion\<rparr>)"
proof -
  have k: "kinematic_state_opt sample_state = Some sample_kinematic_state"
    by (simp add: sample_state_def default_RobotState_def)
  from GetOdom_drops_lookup_result [OF k, of sample_math sample_skew "''Opal/''" False]
  show ?thesis
    using k by (simp add: sample_math_def default_SE3Pose_def)
qed

text \<open>
  Claim C2 as stated fails on a snapshot with no frames at all: the lookup of the body
  in the vision frame reports failure, and the derivation returns an odometry message
  with the default pose, all zeros.
\<close>

theorem GetOdom_no_path_counterexample:
  "child_to_parent_edge_map
     (transforms_snapshot (kinematic_state sample_state_no_frames)) = []
   \<and> fst (GetWorldTformBody sample_math
             (transforms_snapshot (kinematic_state sample_state_no_frames)) default_SE3Pose)
       = False
   \<and> GetOdom sample_math sample_state_no_frames sample_skew ''Opal/'' True =
       Inr (Some
         \<lparr>msg_Odometry_header =
            \<lparr>stamp = \<lparr>seconds = 105, nanos = 0\<rparr>, frame_id = ''Opal/vision''\<rparr>,
          msg_Odometry_child_frame_id = ''Opal/body'',
          msg_Odometry_pose =
            \<lparr>msg_PoseWithCovariance_pose =
               \<lparr>msg_Pose_position = \<lparr>Vec3_x = 0, Vec3_y = 0, Vec3_z = 0\<rparr>,
                msg_Pose_orientation =
                  \<lparr>Quaternion_x = 0, Quaternion_y = 0, Quaternion_z = 0, Quaternion_w = 0\<rparr>\<rparr>,
             msg_PoseWithCovariance_covariance = default_covariance\<rparr>,
          msg_Odometry_twist =
            \<lparr>msg_TwistWithCovariance_twist =
               \<lparr>msg_Twist_linear = \<lparr>Vec3_x = 1, Vec3_y = 2, Vec3_z = 3\<rparr>,
                msg_Twist_angular = \<lparr>Vec3_x = 1, Vec3_y = 5, Vec3_z = 6\<rparr>\<rparr>,
             msg_TwistWithCovariance_covariance = default_covariance\<rparr>\<rparr>)"
  by (simp add: GetOdom_def GetOdomTwist_def has_kinematic_state_def kinematic_state_def
      sample_defs default_defs applyClockSkew_100_5)

text \<open>
  Claim C6. With the kinematic state present, the odometry by the vision frame and the
  odometry by the odom frame are both there; their frames are the prefix followed by
  \<open>vision\<close> and by \<open>odom\<close>, which differ; the child frame of both is the prefix followed
  by \<open>body\<close>; and their twists, covariance included, are equal.
\<close>

theorem GetOdom_reference_frame_switch:
  assumes "kinematic_state_opt state = Some ks"
  shows "\<exists>by_vision by_odom.
           GetOdom math state skew prefix True = Inr (Some by_vision)
           \<and> GetOdom math state skew prefix False = Inr (Some by_odom)
           \<and> frame_id (msg_Odometry_header by_vision) = prefix @ ''vision''
           \<and> frame_id (msg_Odometry_header by_odom) = prefix @ ''odom''
           \<and> frame_id (msg_Odometry_header by_vision) \<noteq> frame_id (msg_Odometry_header by_odom)
           \<and> msg_Odometry_child_frame_id by_vision = prefix @ ''body''
           \<and> msg_Odometry_child_frame_id by_odom = prefix @ ''body''
           \<and> msg_Odometry_twist by_vision = msg_Odometry_twist by_odom"
proof -
  obtain t where "GetOdomTwist state skew = Some t"
    using GetOdomTwist_Some [OF assms] by blast
  then show ?thesis
    using assms by (simp add: GetOdom_def has_kinematic_state_def Let_def)
qed

text \<open>The theorem on the sample state with the prefix \<open>Opal/\<close>.\<close>

theorem GetOdom_reference_frame_switch_witness:
  "kinematic_state_opt sample_state = Some sample_kinematic_state
   \<and> (\<exists>by_vision by_odom.
          GetOdom sample_math sample_state sample_skew ''Opal/'' True = Inr (Some by_vision)
          \<and> GetOdom sample_math sample_state sample_skew ''Opal/'' False = Inr (Some by_odom)
          \<and> frame_id (msg_Odometry_header by_vision) = ''Opal/vision''
          \<and> frame_id (msg_Odometry_header by_odom) = ''Opal/odom''
          \<and> msg_Odometry_child_frame_id by_vision = ''Opal/body''
          \<and> msg_Odometry_child_frame_id by_odom = ''Opal/body''
          \<and> msg_Odometry_twist by_vision = msg_Odometry_twist by_odom)"
proof -
  have k: "kinematic_state_opt sample_state = Some sample_kinematic_state"
    by (simp add: sample_state_def default_RobotState_def)
  from GetOdom_reference_frame_switch [OF k, of sample_math sample_skew "''Opal/''"]
  show ?thesis
    using k by auto
qed

section \<open>The aggregation\<close>

lemma GetJointStates_Inr:
  assumes "list_all known_joint (joint_states (kinematic_state state))"
  shows "\<exists>m. GetJointStates state skew prefix = Inr m
           \<and> (m = None) = (kinematic_state_opt state = None)
           \<and> stamps_of_option (\<lambda>msg. [stamp (msg_JointState_header msg)]) m =
               stamps_of_option (\<lambda>ks. [applyClockSkew (acquisition_timestamp ks) skew])
                 (kinematic_state_opt state)"
proof (cases "kinematic_state_opt state")
  case None
  then show ?thesis
    by (simp add: GetJointStates_None stamps_of_option_def)
next
  case (Some ks)
  with assms have "list_all known_joint (joint_states ks)"
    by (simp add: kinematic_state_Some)
  from GetJointStates_known [OF Some this, of skew prefix] show ?thesis
    using Some by (auto simp: stamps_of_option_def)
qed

lemma GetJointStates_Inl:
  assumes "\<not> list_all known_joint (joint_states (kinematic_state state))"
  shows "GetJointStates state skew prefix = Inl out_of_range"
proof (cases "kinematic_state_opt state")
  case None
  with assms show ?thesis
    by (simp add: kinematic_state_def default_KinematicState_def)
next
  case (Some ks)
  with assms have "\<not> list_all known_joint (joint_states ks)"
    by (simp add: kinematic_state_Some)
  from GetJointStates_unknown [OF Some this] show ?thesis .
qed

lemma GetOdom_Inr:
  "\<exists>m. GetOdom math state skew prefix is_using_vision = Inr m
     \<and> (m = None) = (kinematic_state_opt state = None)
     \<and> stamps_of_option (\<lambda>msg. [stamp (msg_Odometry_header msg)]) m =
         stamps_of_option (\<lambda>ks. [applyClockSkew (acquisition_timestamp ks) skew])
           (kinematic_state_opt state)"
proof (cases "kinematic_state_opt state")
  case None
  then show ?thesis
    by (simp add: GetOdom_None stamps_of_option_def)
next
  case (Some ks)
  from GetOdom_Some [OF Some, of math skew prefix is_using_vision] show ?thesis
    using Some by (auto simp: stamps_of_option_def)
qed

subsection \<open>The four ways a call ends\<close>

lemma getRobotState_fetch_failed:
  "fetch_failed (m_client this) \<Longrightarrow>
     getRobotState math this =
       (Inr (Unexpected (''Failed to get robot state: '' @ DebugString (status (m_client this)))),
        [GetRobotStateAsync])"
  by (auto simp: getRobotState_def fetch_failed_def Let_def)

lemma getRobotState_skew_failed:
  "\<not> fetch_failed (m_client this) \<Longrightarrow> m_time_sync_api this = Unexpected err \<Longrightarrow>
     getRobotState math this =
       (Inr (Unexpected (''Failed to get latest clock skew: '' @ err)),
        [GetRobotStateAsync, getClockSkew])"
  by (auto simp: getRobotState_def fetch_failed_def Let_def)

lemma getRobotState_throws:
  "\<not> fetch_failed (m_client this) \<Longrightarrow> m_time_sync_api this = Value skew \<Longrightarrow>
   \<not> list_all known_joint (joint_states (kinematic_state (robot_state (response (m_client this)))))
   \<Longrightarrow> getRobotState math this = (Inl out_of_range, [GetRobotStateAsync, getClockSkew])"
  using GetJointStates_Inl [of "robot_state (response (m_client this))" skew "''Opal/''"]
  by (auto simp: getRobotState_def fetch_failed_def Let_def)

lemma getRobotState_value:
  assumes "\<not> fetch_failed (m_client this)" and "m_time_sync_api this = Value skew"
    and "list_all known_joint (joint_states (kinematic_state (robot_state (response (m_client this)))))"
  shows "\<exists>maybe_joint_states maybe_odom.
     GetJointStates (robot_state (response (m_client this))) skew ''Opal/'' = Inr maybe_joint_states
     \<and> GetOdom math (robot_state (response (m_client this))) skew ''Opal/'' True = Inr maybe_odom
     \<and> getRobotState math this =
     (Inr (Value
        \<lparr>rs_battery_states = GetBatteryStates (robot_state (response (m_client this))) skew,
         rs_wifi_state = GetWifiState (robot_state (response (m_client this))),
         rs_foot_state = GetFootState (robot_state (response (m_client this))),
         rs_estop_states = GetEstopStates (robot_state (response (m_client this))) skew,
         rs_maybe_joint_states = maybe_joint_states,
         rs_maybe_tf = GetTf math (robot_state (response (m_client this))) skew ''Opal/'' ''body'',
         rs_maybe_odom_twist = GetOdomTwist (robot_state (response (m_client this))) skew,
         rs_maybe_odom = maybe_odom,
         rs_maybe_power_state = GetPowerState (robot_state (response (m_client this))) skew,
         rs_maybe_system_fault_state =
           GetSystemFaultState (robot_state (response (m_client this))) skew,
         rs_maybe_manipulator_state = GetManipulatorState (robot_state (response (m_client this))),
         rs_maybe_end_effector_force =
           GetEndEffectorForce (robot_state (response (m_client this))) skew ''Opal/'',
         rs_maybe_behavior_fault_state =
           GetBehaviorFaultState (robot_state (response (m_client this))) skew\<rparr>),
      [GetRobotStateAsync, getClockSkew])"
proof -
  obtain maybe_joint_states where
    j: "GetJointStates (robot_state (response (m_client this))) skew ''Opal/'' = Inr maybe_joint_states"
    using GetJointStates_Inr [OF assms(3)] by blast
  obtain maybe_odom where
    o: "GetOdom math (robot_state (response (m_client this))) skew ''Opal/'' True = Inr maybe_odom"
    using GetOdom_Inr by blast
  show ?thesis
    using assms(1,2) j o by (auto simp: getRobotState_def fetch_failed_def Let_def)
qed

text \<open>Which sub-results of an aggregated state are there.\<close>

lemma getRobotState_presence:
  assumes "\<not> fetch_failed (m_client this)" and "m_time_sync_api this = Value skew"
    and "list_all known_joint (joint_states (kinematic_state (robot_state (response (m_client this)))))"
  shows "\<exists>out. getRobotState math this = (Inr (Value out), [GetRobotStateAsync, getClockSkew])
     \<and> present_as_in (robot_state (response (m_client this))) out"
proof -
  define state where "state = robot_state (response (m_client this))"
  obtain mj mo where
    j: "GetJointStates state skew ''Opal/'' = Inr mj"
    and o: "GetOdom math state skew ''Opal/'' True = Inr mo"
    and r: "getRobotState math this =
     (Inr (Value
        \<lparr>rs_battery_states = GetBatteryStates state skew,
         rs_wifi_state = GetWifiState state,
         rs_foot_state = GetFootState state,
         rs_estop_states = GetEstopStates state skew,
         rs_maybe_joint_states = mj,
         rs_maybe_tf = GetTf math state skew ''Opal/'' ''body'',
         rs_maybe_odom_twist = GetOdomTwist state skew,
         rs_maybe_odom = mo,
         rs_maybe_power_state = GetPowerState state skew,
         rs_maybe_system_fault_state = GetSystemFaultState state skew,
         rs_maybe_manipulator_state = GetManipulatorState state,
         rs_maybe_end_effector_force = GetEndEffectorForce state skew ''Opal/'',
         rs_maybe_behavior_fault_state = GetBehaviorFaultState state skew\<rparr>),
      [GetRobotStateAsync, getClockSkew])"
    using getRobotState_value [OF assms, of math] unfolding state_def by blast
  have mj: "(mj = None) = (kinematic_state_opt state = None)"
    using GetJointStates_Inr [OF assms(3), of skew "''Opal/''"] j unfolding state_def by auto
  have mo: "(mo = None) = (kinematic_state_opt state = None)"
    using GetOdom_Inr [of math state skew "''Opal/''" True] o by auto
  have tf: "(GetTf math state skew ''Opal/'' ''body'' = None) = (kinematic_state_opt state = None)"
    by (simp add: GetTf_def has_kinematic_state_def)
  have tw: "(GetOdomTwist state skew = None) = (kinematic_state_opt state = None)"
    by (simp add: GetOdomTwist_def has_kinematic_state_def)
  have pw: "(GetPowerState state skew = None) = (power_state_opt state = None)"
    by (simp add: GetPowerState_def split: option.split)
  have sf: "(GetSystemFaultState state skew = None) = (system_fault_state_opt state = None)"
    by (simp add: GetSystemFaultState_def split: option.split)
  have ms: "(GetManipulatorState state = None) = (manipulator_state_opt state = None)"
    by (simp add: GetManipulatorState_def split: option.split)
  have ef: "(GetEndEffectorForce state skew ''Opal/'' = None) = (manipulator_state_opt state = None)"
    by (simp add: GetEndEffectorForce_def split: option.split)
  have bf: "(GetBehaviorFaultState state skew = None) = (behavior_fault_state_opt state = None)"
    by (simp add: GetBehaviorFaultState_def split: option.split)
  show ?thesis
    unfolding state_def [symmetric] r present_as_in_def using mj mo tf tw pw sf ms ef bf by simp
qed

lemma sample_client_fetched:
  "\<not> fetch_failed (m_client (sample_client state))"
  "m_time_sync_api (sample_client state) = Value sample_skew"
  "robot_state (response (m_client (sample_client state))) = state"
  by (simp_all add: sample_client_def new_DefaultRobotStateClient_def sample_result_def
      fetch_failed_def has_robot_state_def robot_state_def)

lemma sample_kinematic_states:
  "kinematic_state sample_state = sample_kinematic_state"
  "kinematic_state sample_state_battery = sample_kinematic_state"
  "kinematic_state sample_state_unknown_joint =
     sample_kinematic_state\<lparr>joint_states := [sample_joint ''fl.hx'', sample_joint ''tail.wag'']\<rparr>"
  by (simp_all add: kinematic_state_def sample_state_def sample_state_battery_def
      sample_state_unknown_joint_def default_RobotState_def)

lemma sample_joints_known:
  "list_all known_joint (joint_states (kinematic_state sample_state))"
  "list_all known_joint (joint_states (kinematic_state sample_state_battery))"
  by (simp_all add: sample_kinematic_states sample_kinematic_state_def sample_joint_def
      known_joint_def kFriendlyJointNames_def)

lemma sample_joint_unknown:
  "\<not> list_all known_joint (joint_states (kinematic_state sample_state_unknown_joint))"
  by (simp add: sample_kinematic_states sample_joint_def known_joint_def
      kFriendlyJointNames_def)

lemma getRobotState_returns_or_throws:
  assumes "\<not> fetch_failed (m_client this)" and "m_time_sync_api this = Value skew"
  shows "if list_all known_joint
              (joint_states (kinematic_state (robot_state (response (m_client this)))))
         then \<exists>out. fst (getRobotState math this) = Inr (Value out)
                \<and> present_as_in (robot_state (response (m_client this))) out
         else fst (getRobotState math this) = Inl out_of_range"
proof (cases "list_all known_joint
                (joint_states (kinematic_state (robot_state (response (m_client this)))))")
  case True
  from getRobotState_presence [OF assms True, of math] obtain out where
    "getRobotState math this = (Inr (Value out), [GetRobotStateAsync, getClockSkew])"
    "present_as_in (robot_state (response (m_client this))) out"
    by blast
  then have "\<exists>out. fst (getRobotState math this) = Inr (Value out)
                \<and> present_as_in (robot_state (response (m_client this))) out"
    by auto
  with True show ?thesis
    by simp
next
  case False
  from getRobotState_throws [OF assms False, of math] False show ?thesis
    by simp
qed

lemma getRobotState_error_iff:
  "(\<exists>msg. fst (getRobotState math this) = Inr (Unexpected msg))
     = (fetch_failed (m_client this) \<or> (\<exists>err. m_time_sync_api this = Unexpected err))"
proof (cases "fetch_failed (m_client this)")
  case True
  then show ?thesis
    by (simp add: getRobotState_fetch_failed)
next
  case False
  show ?thesis
  proof (cases "m_time_sync_api this")
    case (Unexpected err)
    with False show ?thesis
      by (simp add: getRobotState_skew_failed)
  next
    case (Value skew)
    have "\<not> (\<exists>msg. fst (getRobotState math this) = Inr (Unexpected msg))"
      using getRobotState_returns_or_throws [OF False Value, of math]
      by (auto split: if_splits)
    with False Value show ?thesis
      by simp
  qed
qed

text \<open>
  Claim C4, as the code has it. A call returns an error message exactly when the fetch
  failed or carried no state, or the clock-skew lookup failed; the message says which.
  In every other case it returns an aggregated state, unless some joint of the kinematic
  state has a raw name outside the friendly-name table: then it throws
  \<^verbatim>\<open>std::out_of_range\<close> and returns nothing. In a returned state each optional
  sub-result is absent exactly when the sub-message it comes from is absent. The client
  of \<^verbatim>\<open>spot_driver\<close> returns an error message exactly when the fetch failed or carried no
  state, and the state otherwise.
\<close>

theorem getRobotState_outcomes:
  "((\<exists>msg. fst (getRobotState math this) = Inr (Unexpected msg))
      = (fetch_failed (m_client this) \<or> (\<exists>err. m_time_sync_api this = Unexpected err)))
   \<and> (fetch_failed (m_client this) \<longrightarrow>
         fst (getRobotState math this) =
           Inr (Unexpected (''Failed to get robot state: ''
                              @ DebugString (status (m_client this)))))
   \<and> (\<not> fetch_failed (m_client this) \<longrightarrow>
         (\<forall>err. m_time_sync_api this = Unexpected err \<longrightarrow>
            fst (getRobotState math this) =
              Inr (Unexpected (''Failed to get latest clock skew: '' @ err))))
   \<and> (\<not> fetch_failed (m_client this) \<longrightarrow>
         (\<forall>skew. m_time_sync_api this = Value skew \<longrightarrow>
            (if list_all known_joint
                  (joint_states (kinematic_state (robot_state (response (m_client this)))))
             then \<exists>out. fst (getRobotState math this) = Inr (Value out)
                    \<and> present_as_in (robot_state (response (m_client this))) out
             else fst (getRobotState math this) = Inl out_of_range)))
   \<and> fst (DefaultStateClient_getRobotState other) =
       (if fetch_failed (m_state_client other)
        then Unexpected (''Failed to get robot state: ''
                           @ DebugString (status (m_state_client other)))
        else Value (robot_state (response (m_state_client other))))"
proof (intro conjI impI allI)
  show "(\<exists>msg. fst (getRobotState math this) = Inr (Unexpected msg))
          = (fetch_failed (m_client this) \<or> (\<exists>err. m_time_sync_api this = Unexpected err))"
    by (rule getRobotState_error_iff)
next
  assume "fetch_failed (m_client this)"
  then show "fst (getRobotState math this) =
               Inr (Unexpected (''Failed to get robot state: ''
                                  @ DebugString (status (m_client this))))"
    by (simp add: getRobotState_fetch_failed)
next
  fix err
  assume "\<not> fetch_failed (m_client this)" and "m_time_sync_api this = Unexpected err"
  then show "fst (getRobotState math this) =
               Inr (Unexpected (''Failed to get latest clock skew: '' @ err))"
    by (simp add: getRobotState_skew_failed)
next
  fix skew
  assume "\<not> fetch_failed (m_client this)" and "m_time_sync_api this = Value skew"
  then show "if list_all known_joint
                  (joint_states (kinematic_state (robot_state (response (m_client this)))))
             then \<exists>out. fst (getRobotState math this) = Inr (Value out)
                    \<and> present_as_in (robot_state (response (m_client this))) out
             else fst (getRobotState math this) = Inl out_of_range"
    by (rule getRobotState_returns_or_throws)
next
  show "fst (DefaultStateClient_getRobotState other) =
       (if fetch_failed (m_state_client other)
        then Unexpected (''Failed to get robot state: ''
                           @ DebugString (status (m_state_client other)))
        else Value (robot_state (response (m_state_client other))))"
    by (simp add: DefaultStateClient_getRobotState_def fetch_failed_def Let_def)
qed

text \<open>The theorem on the sample client: the fetch and the clock skew succeed, the only
  sub-message is the kinematic state, and the call returns a state with the
  kinematic sub-results and without the others.\<close>

theorem getRobotState_outcomes_witness:
  "\<not> fetch_failed (m_client (sample_client sample_state))
   \<and> m_time_sync_api (sample_client sample_state) = Value sample_skew
   \<and> list_all known_joint
        (joint_states (kinematic_state
           (robot_state (response (m_client (sample_client sample_state))))))
   \<and> (\<exists>out. fst (getRobotState sample_math (sample_client sample_state)) = Inr (Value out)
          \<and> rs_maybe_joint_states out \<noteq> None \<and> rs_maybe_odom out \<noteq> None
          \<and> rs_maybe_power_state out = None \<and> rs_maybe_manipulator_state out = None)"
proof -
  have k: "kinematic_state_opt sample_state \<noteq> None" "power_state_opt sample_state = None"
    "manipulator_state_opt sample_state = None"
    by (simp_all add: sample_state_def default_RobotState_def)
  have j: "list_all known_joint
        (joint_states (kinematic_state
           (robot_state (response (m_client (sample_client sample_state))))))"
    by (simp add: sample_client_fetched sample_joints_known)
  from getRobotState_outcomes [of sample_math "sample_client sample_state"
      "\<lparr>m_state_client = sample_result sample_state\<rparr>"]
  have "\<exists>out. fst (getRobotState sample_math (sample_client sample_state)) = Inr (Value out)
          \<and> present_as_in sample_state out"
    using j by (simp add: sample_client_fetched)
  then obtain out where
    o: "fst (getRobotState sample_math (sample_client sample_state)) = Inr (Value out)"
       "present_as_in sample_state out"
    by blast
  from o(2) k have "rs_maybe_joint_states out \<noteq> None \<and> rs_maybe_odom out \<noteq> None
          \<and> rs_maybe_power_state out = None \<and> rs_maybe_manipulator_state out = None"
    unfolding present_as_in_def by blast
  with o(1) j show ?thesis
    by (auto simp: sample_client_fetched)
qed

text \<open>
  Claim C4 as stated fails when a joint has a name the table does not have: the fetch
  succeeds and carries a state, the clock skew is there, and the call neither returns
  an error message nor an aggregated state: it throws.
\<close>

theorem getRobotState_throws_counterexample:
  "\<not> fetch_failed (m_client (sample_client sample_state_unknown_joint))
   \<and> m_time_sync_api (sample_client sample_state_unknown_joint) = Value sample_skew
   \<and> getRobotState sample_math (sample_client sample_state_unknown_joint)
       = (Inl out_of_range, [GetRobotStateAsync, getClockSkew])"
proof -
  have "\<not> list_all known_joint
          (joint_states (kinematic_state
             (robot_state (response (m_client (sample_client sample_state_unknown_joint))))))"
    using sample_joint_unknown by (simp add: sample_client_fetched)
  from getRobotState_throws [OF sample_client_fetched(1,2) this]
  show ?thesis
    by (simp only: sample_client_fetched simp_thms)
qed

subsection \<open>The clock skew of a cycle\<close>

lemma record_stamps_corrected:
  "record_stamps
     \<lparr>rs_battery_states = GetBatteryStates state skew,
      rs_wifi_state = w, rs_foot_state = f,
      rs_estop_states = GetEstopStates state skew,
      rs_maybe_joint_states = mj, rs_maybe_tf = tf, rs_maybe_odom_twist = tw,
      rs_maybe_odom = mo,
      rs_maybe_power_state = GetPowerState state skew,
      rs_maybe_system_fault_state = GetSystemFaultState state skew,
      rs_maybe_manipulator_state = ms, rs_maybe_end_effector_force = ef,
      rs_maybe_behavior_fault_state = GetBehaviorFaultState state skew\<rparr>
   = map (\<lambda>t. applyClockSkew t skew) (record_timestamps state)"
  by (simp add: record_stamps_def record_timestamps_def stamps_of_option_def
      GetBatteryStates_def GetBatteryState_def GetEstopStates_def GetEstopState_def
      GetPowerState_def GetSystemFaultState_def create_fault_message_def
      GetBehaviorFaultState_def GetBehaviorFault_def comp_def
      split: option.split)

lemma GetTf_stamps:
  "stamps_of_option (\<lambda>m. map (\<lambda>e. stamp (msg_TransformStamped_header e)) (transforms m))
     (GetTf math state skew prefix target)
   = stamps_of_option
       (\<lambda>ks. replicate (length (child_to_parent_edge_map (transforms_snapshot ks)))
                (applyClockSkew (acquisition_timestamp ks) skew))
       (kinematic_state_opt state)"
proof (cases "kinematic_state_opt state")
  case None
  then show ?thesis
    by (simp add: GetTf_None stamps_of_option_def)
next
  case (Some ks)
  have "map (\<lambda>e. stamp (msg_TransformStamped_header e))
          (map (GetTf_edge math (applyClockSkew (acquisition_timestamp ks) skew) prefix target)
             (child_to_parent_edge_map (transforms_snapshot ks)))
        = replicate (length (child_to_parent_edge_map (transforms_snapshot ks)))
            (applyClockSkew (acquisition_timestamp ks) skew)"
    by (simp add: map_replicate_const [symmetric] GetTf_edge_def toTransformStamped_def comp_def)
  with Some show ?thesis
    by (simp add: GetTf_Some stamps_of_option_def)
qed

lemma GetOdomTwist_stamps:
  "stamps_of_option (\<lambda>m. [stamp (msg_TwistWithCovarianceStamped_header m)])
     (GetOdomTwist state skew)
   = stamps_of_option (\<lambda>ks. [applyClockSkew (acquisition_timestamp ks) skew])
       (kinematic_state_opt state)"
  by (cases "kinematic_state_opt state")
    (simp_all add: GetOdomTwist_def has_kinematic_state_def kinematic_state_Some
      stamps_of_option_def)

lemma GetEndEffectorForce_stamps:
  "stamps_of_option (\<lambda>m. [stamp (msg_Vector3Stamped_header m)])
     (GetEndEffectorForce state skew prefix)
   = stamps_of_option
       (\<lambda>m. [applyClockSkew (acquisition_timestamp (kinematic_state state)) skew])
       (manipulator_state_opt state)"
  by (simp add: GetEndEffectorForce_def stamps_of_option_def split: option.split)

lemma replicate_stamps:
  "x # replicate n x @ [x, x] = replicate (3 + n) x"
  "x # replicate n x @ [x, x, x] = replicate (4 + n) x"
  by (induction n) (simp_all add: eval_nat_numeral)

text \<open>The stamps a kinematic state and a manipulator state give.\<close>

lemma kinematic_stamps_corrected:
  assumes "GetJointStates state skew ''Opal/'' = Inr mj"
    and "GetOdom math state skew ''Opal/'' True = Inr mo"
  shows "kinematic_stamps
     \<lparr>rs_battery_states = b, rs_wifi_state = w, rs_foot_state = f, rs_estop_states = e,
      rs_maybe_joint_states = mj,
      rs_maybe_tf = GetTf math state skew ''Opal/'' ''body'',
      rs_maybe_odom_twist = GetOdomTwist state skew,
      rs_maybe_odom = mo,
      rs_maybe_power_state = p, rs_maybe_system_fault_state = s,
      rs_maybe_manipulator_state = ms,
      rs_maybe_end_effector_force = GetEndEffectorForce state skew ''Opal/'',
      rs_maybe_behavior_fault_state = bf\<rparr>
   = replicate
       ((case kinematic_state_opt state of
           None \<Rightarrow> 0
         | Some ks \<Rightarrow> 3 + length (child_to_parent_edge_map (transforms_snapshot ks)))
        + (case manipulator_state_opt state of None \<Rightarrow> 0 | Some m \<Rightarrow> 1))
       (applyClockSkew (acquisition_timestamp (kinematic_state state)) skew)"
proof -
  have known: "list_all known_joint (joint_states (kinematic_state state))"
    using assms(1) GetJointStates_Inl [of state skew "''Opal/''"] by auto
  have j: "stamps_of_option (\<lambda>msg. [stamp (msg_JointState_header msg)]) mj =
             stamps_of_option (\<lambda>ks. [applyClockSkew (acquisition_timestamp ks) skew])
               (kinematic_state_opt state)"
    using GetJointStates_Inr [OF known, of skew "''Opal/''"] assms(1) by auto
  have o: "stamps_of_option (\<lambda>msg. [stamp (msg_Odometry_header msg)]) mo =
             stamps_of_option (\<lambda>ks. [applyClockSkew (acquisition_timestamp ks) skew])
               (kinematic_state_opt state)"
    using GetOdom_Inr [of math state skew "''Opal/''" True] assms(2) by auto
  show ?thesis
    unfolding kinematic_stamps_def
    by (simp add: j o GetTf_stamps GetOdomTwist_stamps GetEndEffectorForce_stamps)
      (simp add: stamps_of_option_def kinematic_state_def replicate_stamps
        split: option.split)
qed

text \<open>A call that returned a state asked for the clock skew once and built the state
  from that skew.\<close>

lemma getRobotState_returned:
  assumes "getRobotState math this = (Inr (Value out), calls)"
  shows "\<exists>skew. m_time_sync_api this = Value skew
           \<and> calls = [GetRobotStateAsync, getClockSkew]
           \<and> kinematic_stamps out =
               replicate
                 ((case kinematic_state_opt (robot_state (response (m_client this))) of
                     None \<Rightarrow> 0
                   | Some ks \<Rightarrow> 3 + length (child_to_parent_edge_map (transforms_snapshot ks)))
                  + (case manipulator_state_opt (robot_state (response (m_client this))) of
                       None \<Rightarrow> 0 | Some m \<Rightarrow> 1))
                 (applyClockSkew
                    (acquisition_timestamp
                       (kinematic_state (robot_state (response (m_client this))))) skew)
           \<and> record_stamps out =
               map (\<lambda>t. applyClockSkew t skew)
                 (record_timestamps (robot_state (response (m_client this))))
           \<and> rs_maybe_tf out =
               GetTf math (robot_state (response (m_client this))) skew ''Opal/'' ''body''"
proof -
  define state where "state = robot_state (response (m_client this))"
  have f: "\<not> fetch_failed (m_client this)"
    using assms getRobotState_fetch_failed [of this math] by auto
  obtain skew where s: "m_time_sync_api this = Value skew"
    using assms f getRobotState_skew_failed [of this _ math]
    by (cases "m_time_sync_api this") auto
  have known: "list_all known_joint (joint_states (kinematic_state state))"
    using assms getRobotState_throws [OF f s, of math] unfolding state_def by auto
  obtain mj mo where
    j: "GetJointStates state skew ''Opal/'' = Inr mj"
    and o: "GetOdom math state skew ''Opal/'' True = Inr mo"
    and r: "getRobotState math this =
     (Inr (Value
        \<lparr>rs_battery_states = GetBatteryStates state skew,
         rs_wifi_state = GetWifiState state,
         rs_foot_state = GetFootState state,
         rs_estop_states = GetEstopStates state skew,
         rs_maybe_joint_states = mj,
         rs_maybe_tf = GetTf math state skew ''Opal/'' ''body'',
         rs_maybe_odom_twist = GetOdomTwist state skew,
         rs_maybe_odom = mo,
         rs_maybe_power_state = GetPowerState state skew,
         rs_maybe_system_fault_state = GetSystemFaultState state skew,
         rs_maybe_manipulator_state = GetManipulatorState state,
         rs_maybe_end_effector_force = GetEndEffectorForce state skew ''Opal/'',
         rs_maybe_behavior_fault_state = GetBehaviorFaultState state skew\<rparr>),
      [GetRobotStateAsync, getClockSkew])"
    using getRobotState_value [OF f s, of math] known unfolding state_def by blast
  from assms r have out: "out =
        \<lparr>rs_battery_states = GetBatteryStates state skew,
         rs_wifi_state = GetWifiState state,
         rs_foot_state = GetFootState state,
         rs_estop_states = GetEstopStates state skew,
         rs_maybe_joint_states = mj,
         rs_maybe_tf = GetTf math state skew ''Opal/'' ''body'',
         rs_maybe_odom_twist = GetOdomTwist state skew,
         rs_maybe_odom = mo,
         rs_maybe_power_state = GetPowerState state skew,
         rs_maybe_system_fault_state = GetSystemFaultState state skew,
         rs_maybe_manipulator_state = GetManipulatorState state,
         rs_maybe_end_effector_force = GetEndEffectorForce state skew ''Opal/'',
         rs_maybe_behavior_fault_state = GetBehaviorFaultState state skew\<rparr>"
    and calls: "calls = [GetRobotStateAsync, getClockSkew]"
    by simp_all
  have tf: "rs_maybe_tf out = GetTf math state skew ''Opal/'' ''body''"
    unfolding out by simp
  show ?thesis
    unfolding state_def [symmetric]
    using s calls tf kinematic_stamps_corrected [OF j o] record_stamps_corrected
    unfolding out by blast
qed

text \<open>
  Claim C5, as the code has it. A call that returns an aggregated state asks the
  time-sync API for the clock skew exactly once, and every stamp of the state is a
  timestamp of the robot corrected by that one skew: the stamps of the joint state, of
  every transform edge, of the twist, of the odometry and of the end-effector force are
  the corrected acquisition timestamp of the kinematic state, and the stamps of the
  batteries, e-stops, power state and faults are the corrected timestamps of their own
  records. With the acquisition timestamp 100 s and the skew 5 s the former are all
  105 s.
\<close>

theorem getRobotState_single_clock_skew:
  assumes "getRobotState math this = (Inr (Value out), calls)"
  shows "count_list calls getClockSkew = 1
         \<and> (\<exists>skew. m_time_sync_api this = Value skew
              \<and> kinematic_stamps out =
                  replicate
                    ((case kinematic_state_opt (robot_state (response (m_client this))) of
                        None \<Rightarrow> 0
                      | Some ks \<Rightarrow>
                          3 + length (child_to_parent_edge_map (transforms_snapshot ks)))
                     + (case manipulator_state_opt (robot_state (response (m_client this))) of
                          None \<Rightarrow> 0 | Some m \<Rightarrow> 1))
                    (applyClockSkew
                       (acquisition_timestamp
                          (kinematic_state (robot_state (response (m_client this))))) skew)
              \<and> record_stamps out =
                  map (\<lambda>t. applyClockSkew t skew)
                    (record_timestamps (robot_state (response (m_client this))))
              \<and> (acquisition_timestamp
                    (kinematic_state (robot_state (response (m_client this))))
                    = \<lparr>seconds = 100, nanos = 0\<rparr>
                  \<and> skew = \<lparr>d_seconds = 5, d_nanos = 0\<rparr>
                  \<longrightarrow> list_all (\<lambda>t. t = \<lparr>seconds = 105, nanos = 0\<rparr>) (kinematic_stamps out)))"
proof -
  from getRobotState_returned [OF assms] obtain skew where
    s: "m_time_sync_api this = Value skew"
    and c: "calls = [GetRobotStateAsync, getClockSkew]"
    and k: "kinematic_stamps out =
              replicate
                ((case kinematic_state_opt (robot_state (response (m_client this))) of
                    None \<Rightarrow> 0
                  | Some ks \<Rightarrow> 3 + length (child_to_parent_edge_map (transforms_snapshot ks)))
                 + (case manipulator_state_opt (robot_state (response (m_client this))) of
                      None \<Rightarrow> 0 | Some m \<Rightarrow> 1))
                (applyClockSkew
                   (acquisition_timestamp
                      (kinematic_state (robot_state (response (m_client this))))) skew)"
    and r: "record_stamps out =
              map (\<lambda>t. applyClockSkew t skew)
                (record_timestamps (robot_state (response (m_client this))))"
    by blast
  have once: "count_list calls getClockSkew = 1"
    unfolding c by simp
  have "acquisition_timestamp (kinematic_state (robot_state (response (m_client this))))
          = \<lparr>seconds = 100, nanos = 0\<rparr>
        \<and> skew = \<lparr>d_seconds = 5, d_nanos = 0\<rparr>
        \<longrightarrow> list_all (\<lambda>t. t = \<lparr>seconds = 105, nanos = 0\<rparr>) (kinematic_stamps out)"
    unfolding k by (simp add: list_all_iff applyClockSkew_100_5)
  with once s k r show ?thesis
    by blast
qed

text \<open>The theorem on the sample client: one request for the clock skew, and the four
  stamps that come from the acquisition timestamp are 105 s.\<close>

theorem getRobotState_single_clock_skew_witness:
  "\<exists>out calls.
      getRobotState sample_math (sample_client sample_state) = (Inr (Value out), calls)
      \<and> count_list calls getClockSkew = 1
      \<and> kinematic_stamps out = replicate 4 \<lparr>seconds = 105, nanos = 0\<rparr>
      \<and> record_stamps out = []"
proof -
  from getRobotState_presence
    [OF sample_client_fetched(1,2), of sample_state sample_math]
  obtain out where
    r: "getRobotState sample_math (sample_client sample_state)
          = (Inr (Value out), [GetRobotStateAsync, getClockSkew])"
    by (auto simp: sample_client_fetched sample_joints_known)
  have a: "acquisition_timestamp (kinematic_state sample_state) = \<lparr>seconds = 100, nanos = 0\<rparr>"
    "length (child_to_parent_edge_map (transforms_snapshot sample_kinematic_state)) = 1"
    by (simp_all add: sample_kinematic_states sample_kinematic_state_def)
  have b: "kinematic_state_opt sample_state = Some sample_kinematic_state"
    "manipulator_state_opt sample_state = None"
    "record_timestamps sample_state = []"
    by (simp_all add: sample_state_def default_RobotState_def record_timestamps_def
        stamps_of_option_def)
  from getRobotState_single_clock_skew [OF r]
  have "count_list [GetRobotStateAsync, getClockSkew] getClockSkew = 1
        \<and> kinematic_stamps out = replicate 4 \<lparr>seconds = 105, nanos = 0\<rparr>
        \<and> record_stamps out = []"
    by (simp add: sample_client_fetched a b sample_skew_def applyClockSkew_100_5)
  with r show ?thesis
    by blast
qed

text \<open>
  Claim C5 as stated fails in its example: with the kinematic state present, the
  acquisition timestamp 100 s and the skew 5 s, a battery whose own timestamp is 7 s
  has the stamp 12 s in the result, next to the four stamps of 105 s.
\<close>

theorem getRobotState_battery_stamp_counterexample:
  "kinematic_state_opt sample_state_battery = Some sample_kinematic_state
   \<and> acquisition_timestamp sample_kinematic_state = \<lparr>seconds = 100, nanos = 0\<rparr>
   \<and> m_time_sync_api (sample_client sample_state_battery)
       = Value \<lparr>d_seconds = 5, d_nanos = 0\<rparr>
   \<and> map_option record_stamps
        (returned (fst (getRobotState sample_math (sample_client sample_state_battery))))
       = Some [\<lparr>seconds = 12, nanos = 0\<rparr>]
   \<and> map_option kinematic_stamps
        (returned (fst (getRobotState sample_math (sample_client sample_state_battery))))
       = Some (replicate 4 \<lparr>seconds = 105, nanos = 0\<rparr>)"
proof -
  from getRobotState_presence
    [OF sample_client_fetched(1,2), of sample_state_battery sample_math]
  obtain out where
    r: "getRobotState sample_math (sample_client sample_state_battery)
          = (Inr (Value out), [GetRobotStateAsync, getClockSkew])"
    by (auto simp: sample_client_fetched sample_joints_known)
  have a: "acquisition_timestamp (kinematic_state sample_state_battery)
             = \<lparr>seconds = 100, nanos = 0\<rparr>"
    "length (child_to_parent_edge_map (transforms_snapshot sample_kinematic_state)) = 1"
    "acquisition_timestamp sample_kinematic_state = \<lparr>seconds = 100, nanos = 0\<rparr>"
    by (simp_all add: sample_kinematic_states sample_kinematic_state_def)
  have b: "kinematic_state_opt sample_state_battery = Some sample_kinematic_state"
    "manipulator_state_opt sample_state_battery = None"
    "record_timestamps sample_state_battery = [\<lparr>seconds = 7, nanos = 0\<rparr>]"
    by (simp_all add: sample_state_def sample_state_battery_def sample_battery_def
        default_RobotState_def record_timestamps_def stamps_of_option_def)
  from getRobotState_returned [OF r]
  have "record_stamps out = [\<lparr>seconds = 12, nanos = 0\<rparr>]
        \<and> kinematic_stamps out = replicate 4 \<lparr>seconds = 105, nanos = 0\<rparr>"
    by (simp add: sample_client_fetched a b sample_skew_def applyClockSkew_100_5
        applyClockSkew_7_5)
  with r a b show ?thesis
    by (simp add: sample_client_fetched sample_skew_def)
qed

subsection \<open>The compiled-in prefix and invert target\<close>

text \<open>
  Claim C9. With the prefix \<open>Opal/\<close> and the invert target \<open>body\<close> no entry of the frame
  tree is inverted, whatever the robot's state, the clock skew and the inverse of the
  library: every emitted edge carries the stored transform, its parent frame is
  \<open>Opal/\<close> followed by the stored parent frame name and its child frame is \<open>Opal/\<close>
  followed by the child frame name. These are the transforms of every aggregated state
  that \<open>getRobotState\<close> returns.
\<close>

theorem getRobotState_never_inverts:
  "GetTf math state skew ''Opal/'' ''body'' =
     (case kinematic_state_opt state of
        None \<Rightarrow> None
      | Some ks \<Rightarrow>
          Some \<lparr>transforms =
                  map (\<lambda>(child, edge).
                         \<lparr>msg_TransformStamped_header =
                            \<lparr>stamp = applyClockSkew (acquisition_timestamp ks) skew,
                             frame_id = ''Opal/'' @ parent_frame_name edge\<rparr>,
                          msg_TransformStamped_child_frame_id = ''Opal/'' @ child,
                          msg_TransformStamped_transform =
                            \<lparr>translation = SE3Pose_position (parent_tform_child edge),
                             rotation = SE3Pose_rotation (parent_tform_child edge)\<rparr>\<rparr>)
                    (child_to_parent_edge_map (transforms_snapshot ks))\<rparr>)
   \<and> (fst (getRobotState math this) = Inr (Value out) \<longrightarrow>
        (\<exists>clock_skew. m_time_sync_api this = Value clock_skew
           \<and> rs_maybe_tf out =
               GetTf math (robot_state (response (m_client this))) clock_skew
                 ''Opal/'' ''body''))"
proof (intro conjI impI)
  show "GetTf math state skew ''Opal/'' ''body'' =
     (case kinematic_state_opt state of
        None \<Rightarrow> None
      | Some ks \<Rightarrow>
          Some \<lparr>transforms =
                  map (\<lambda>(child, edge).
                         \<lparr>msg_TransformStamped_header =
                            \<lparr>stamp = applyClockSkew (acquisition_timestamp ks) skew,
                             frame_id = ''Opal/'' @ parent_frame_name edge\<rparr>,
                          msg_TransformStamped_child_frame_id = ''Opal/'' @ child,
                          msg_TransformStamped_transform =
                            \<lparr>translation = SE3Pose_position (parent_tform_child edge),
                             rotation = SE3Pose_rotation (parent_tform_child edge)\<rparr>\<rparr>)
                    (child_to_parent_edge_map (transforms_snapshot ks))\<rparr>)"
  proof (cases "kinematic_state_opt state")
    case None
    then show ?thesis
      by (simp add: GetTf_None)
  next
    case (Some ks)
    then show ?thesis
      by (simp add: GetTf_Some GetTf_edge_def toTransformStamped_def case_prod_beta)
  qed
next
  assume "fst (getRobotState math this) = Inr (Value out)"
  then have "getRobotState math this = (Inr (Value out), snd (getRobotState math this))"
    by (simp add: prod_eq_iff)
  from getRobotState_returned [OF this]
  show "\<exists>clock_skew. m_time_sync_api this = Value clock_skew
           \<and> rs_maybe_tf out =
               GetTf math (robot_state (response (m_client this))) clock_skew
                 ''Opal/'' ''body''"
    by blast
qed

text \<open>The theorem on the sample client, whose frame tree has the child \<open>body\<close>: the
  state it returns has the edge from \<open>Opal/odom\<close> to \<open>Opal/body\<close> with the stored
  transform.\<close>

theorem getRobotState_never_inverts_witness:
  "\<exists>out. fst (getRobotState sample_math (sample_client sample_state)) = Inr (Value out)
      \<and> rs_maybe_tf out =
          Some \<lparr>transforms =
                  [\<lparr>msg_TransformStamped_header =
                      \<lparr>stamp = \<lparr>seconds = 105, nanos = 0\<rparr>, frame_id = ''Opal/odom''\<rparr>,
                    msg_TransformStamped_child_frame_id = ''Opal/body'',
                    msg_TransformStamped_transform =
                      \<lparr>translation = \<lparr>Vec3_x = 1, Vec3_y = 2, Vec3_z = 3\<rparr>,
                       rotation = \<lparr>Quaternion_x = 0, Quaternion_y = 0, Quaternion_z = 0,
                                    Quaternion_w = 1\<rparr>\<rparr>\<rparr>]\<rparr>"
proof -
  from getRobotState_presence
    [OF sample_client_fetched(1,2), of sample_state sample_math]
  obtain out where
    r: "fst (getRobotState sample_math (sample_client sample_state)) = Inr (Value out)"
    by (auto simp: sample_client_fetched sample_joints_known)
  have k: "kinematic_state_opt sample_state = Some sample_kinematic_state"
    by (simp add: sample_state_def default_RobotState_def)
  from getRobotState_never_inverts
    [of sample_math sample_state sample_skew "sample_client sample_state" out] r
  have "rs_maybe_tf out =
          Some \<lparr>transforms =
                  [\<lparr>msg_TransformStamped_header =
                      \<lparr>stamp = \<lparr>seconds = 105, nanos = 0\<rparr>, frame_id = ''Opal/odom''\<rparr>,
                    msg_TransformStamped_child_frame_id = ''Opal/body'',
                    msg_TransformStamped_transform =
                      \<lparr>translation = \<lparr>Vec3_x = 1, Vec3_y = 2, Vec3_z = 3\<rparr>,
                       rotation = \<lparr>Quaternion_x = 0, Quaternion_y = 0, Quaternion_z = 0,
                                    Quaternion_w = 1\<rparr>\<rparr>\<rparr>]\<rparr>"
    by (simp add: sample_client_fetched k sample_kinematic_state_def sample_pose_def
        sample_skew_def applyClockSkew_100_5)
  with r show ?thesis
    by blast
qed

text \<open>
  Claim C10. Two clients built from the same SDK client and the same time-sync API with
  any two robot names do the same in \<open>getRobotState\<close>: the same result and the same
  requests. The constructor stores the name, followed by a slash unless it is empty, in
  the frame prefix, which \<open>getRobotState\<close> does not read.
\<close>

theorem getRobotState_ignores_robot_name:
  "getRobotState math (new_DefaultRobotStateClient client time_sync_api robot_name)
     = getRobotState math (new_DefaultRobotStateClient client time_sync_api other_name)
   \<and> m_frame_prefix (new_DefaultRobotStateClient client time_sync_api robot_name)
       = (if robot_name = [] then [] else robot_name @ ''/'')"
proof
  have "m_client (new_DefaultRobotStateClient client time_sync_api robot_name)
          = m_client (new_DefaultRobotStateClient client time_sync_api other_name)"
    and "m_time_sync_api (new_DefaultRobotStateClient client time_sync_api robot_name)
          = m_time_sync_api (new_DefaultRobotStateClient client time_sync_api other_name)"
    by (simp_all add: new_DefaultRobotStateClient_def)
  then show "getRobotState math (new_DefaultRobotStateClient client time_sync_api robot_name)
     = getRobotState math (new_DefaultRobotStateClient client time_sync_api other_name)"
    by (simp only: getRobotState_def)
next
  show "m_frame_prefix (new_DefaultRobotStateClient client time_sync_api robot_name)
       = (if robot_name = [] then [] else robot_name @ ''/'')"
    by (simp add: new_DefaultRobotStateClient_def)
qed

text \<open>The theorem on the robot names \<open>Spot\<close> and \<open>Rover\<close>: the frame prefixes differ, the
  results are equal, and the frame of the odometry is \<open>Opal/vision\<close>.\<close>

theorem getRobotState_ignores_robot_name_witness:
  "getRobotState sample_math
     (new_DefaultRobotStateClient (sample_result sample_state) (Value sample_skew) ''Spot'')
     = getRobotState sample_math
         (new_DefaultRobotStateClient (sample_result sample_state) (Value sample_skew) ''Rover'')
   \<and> m_frame_prefix
        (new_DefaultRobotStateClient (sample_result sample_state) (Value sample_skew) ''Spot'')
       = ''Spot/''
   \<and> m_frame_prefix
        (new_DefaultRobotStateClient (sample_result sample_state) (Value sample_skew) ''Rover'')
       = ''Rover/''
   \<and> map_option (\<lambda>out. map_option (\<lambda>odom. frame_id (msg_Odometry_header odom))
                          (rs_maybe_odom out))
        (returned (fst (getRobotState sample_math
           (new_DefaultRobotStateClient (sample_result sample_state) (Value sample_skew)
              ''Rover''))))
       = Some (Some ''Opal/vision'')"
proof -
  have same: "getRobotState sample_math
     (new_DefaultRobotStateClient (sample_result sample_state) (Value sample_skew) ''Spot'')
     = getRobotState sample_math
         (new_DefaultRobotStateClient (sample_result sample_state) (Value sample_skew) ''Rover'')"
    and spot: "m_frame_prefix
        (new_DefaultRobotStateClient (sample_result sample_state) (Value sample_skew) ''Spot'')
       = ''Spot/''"
    using getRobotState_ignores_robot_name
      [of sample_math "sample_result sample_state" "Value sample_skew" "''Spot''" "''Rover''"]
    by simp_all
  have rover: "m_frame_prefix
        (new_DefaultRobotStateClient (sample_result sample_state) (Value sample_skew) ''Rover'')
       = ''Rover/''"
    by (simp add: new_DefaultRobotStateClient_def)
  from getRobotState_value
    [OF sample_client_fetched(1,2), of sample_state sample_math]
  obtain mj mo where
    o: "GetOdom sample_math sample_state sample_skew ''Opal/'' True = Inr mo"
    and r: "fst (getRobotState sample_math (sample_client sample_state))
          = Inr (Value
        \<lparr>rs_battery_states = GetBatteryStates sample_state sample_skew,
         rs_wifi_state = GetWifiState sample_state,
         rs_foot_state = GetFootState sample_state,
         rs_estop_states = GetEstopStates sample_state sample_skew,
         rs_maybe_joint_states = mj,
         rs_maybe_tf = GetTf sample_math sample_state sample_skew ''Opal/'' ''body'',
         rs_maybe_odom_twist = GetOdomTwist sample_state sample_skew,
         rs_maybe_odom = mo,
         rs_maybe_power_state = GetPowerState sample_state sample_skew,
         rs_maybe_system_fault_state = GetSystemFaultState sample_state sample_skew,
         rs_maybe_manipulator_state = GetManipulatorState sample_state,
         rs_maybe_end_effector_force = GetEndEffectorForce sample_state sample_skew ''Opal/'',
         rs_maybe_behavior_fault_state = GetBehaviorFaultState sample_state sample_skew\<rparr>)"
    by (auto simp: sample_client_fetched sample_joints_known)
  have k: "kinematic_state_opt sample_state = Some sample_kinematic_state"
    by (simp add: sample_state_def default_RobotState_def)
  from GetOdom_vision_frame [OF k, of sample_math sample_skew "''Opal/''"] o
  have "map_option (\<lambda>odom. frame_id (msg_Odometry_header odom)) mo = Some ''Opal/vision''"
    by auto
  with r have "map_option (\<lambda>out. map_option (\<lambda>odom. frame_id (msg_Odometry_header odom))
                          (rs_maybe_odom out))
        (returned (fst (getRobotState sample_math (sample_client sample_state))))
       = Some (Some ''Opal/vision'')"
    by simp
  then have "map_option (\<lambda>out. map_option (\<lambda>odom. frame_id (msg_Odometry_header odom))
                          (rs_maybe_odom out))
        (returned (fst (getRobotState sample_math
           (new_DefaultRobotStateClient (sample_result sample_state) (Value sample_skew)
              ''Rover''))))
       = Some (Some ''Opal/vision'')"
    unfolding sample_client_def same .
  with same spot rover show ?thesis
    by (intro conjI)
qed

end
